theory Spec2Isabelle
  imports Complex_Main
begin

section \<open>The JavaScript engine\<close>

text \<open>
  A JavaScript number is a double. A finite double is taken as the real number it
  denotes, and what the engine does with numbers and strings is a parameter of the
  model:
  \<^item> \<open>roundDouble\<close> rounds the exact result of an arithmetic operation to the double the
    engine returns (\<^verbatim>\<open>x * y\<close> is \<open>roundDouble (x * y)\<close>, and so is \<^verbatim>\<open>x + y\<close>);
  \<^item> \<open>mathPow\<close> is \<^verbatim>\<open>Math.pow\<close> at a whole exponent;
  \<^item> \<open>stringAtLeast500 s\<close> is the outcome of \<^verbatim>\<open>s >= 500\<close> for a string \<open>s\<close>, which the
    engine decides by converting the string to a number (\<^verbatim>\<open>'503' >= 500\<close> holds,
    \<^verbatim>\<open>'TIMEOUT' >= 500\<close> does not).
  \<^verbatim>\<open>Math.floor\<close> and \<^verbatim>\<open>Math.min\<close> are exact on doubles. Infinities and NaN are outside
  the model.
\<close>

record js_engine =
  roundDouble :: "real \<Rightarrow> real"
  mathPow :: "real \<Rightarrow> int \<Rightarrow> real"
  stringAtLeast500 :: "string \<Rightarrow> bool"

text \<open>What the statements about rounded arithmetic need of the rounding.\<close>

definition rounding :: "(real \<Rightarrow> real) \<Rightarrow> bool" where
  "rounding fl = ((\<forall>x y. x \<le> y \<longrightarrow> fl x \<le> fl y) \<and> (\<forall>x. fl (fl x) = fl x) \<and> fl 0 = 0)"

text \<open>The doubles written \<^verbatim>\<open>0.1\<close> and \<^verbatim>\<open>0.2\<close> in the source.\<close>

definition double_0_1 :: real where
  "double_0_1 = 3602879701896397 / 36028797018963968"

definition double_0_2 :: real where
  "double_0_2 = 3602879701896397 / 18014398509481984"

section \<open>Errors and their classification (utils/errorHandler.js, ErrorHandler)\<close>

text \<open>
  The classifier reads two properties of the value it is given, \<^verbatim>\<open>error.code\<close> and
  \<^verbatim>\<open>error.message\<close>. An error object is a value on which both reads succeed and whose
  message is absent or a string; its code is absent, a string or a whole number (other
  codes are outside the model). Every other value a \<^verbatim>\<open>catch\<close> can receive is
  unclassifiable: on \<^verbatim>\<open>null\<close> and \<^verbatim>\<open>undefined\<close> the read of \<^verbatim>\<open>error.message\<close> throws a
  TypeError, and on a message that is neither absent nor a string the call
  \<^verbatim>\<open>message.toLowerCase()\<close> does.
\<close>

datatype err_code = NoCode | StrCode string | NumCode int

record js_error =
  code :: err_code
  message :: "string option"

datatype caught = ErrorObject js_error | Unclassifiable

datatype error_type =
    NETWORK_ERROR | TIMEOUT | RATE_LIMITED | SERVER_ERROR | GAS_ESTIMATION_FAILED
  | INSUFFICIENT_FUNDS | TRANSACTION_REVERTED | NONCE_TOO_LOW | GAS_PRICE_TOO_LOW
  | CONTRACT_ERROR | VALIDATION_ERROR | CONFIGURATION_ERROR | UNKNOWN_ERROR

text \<open>\<^verbatim>\<open>String.prototype.toLowerCase\<close> on ASCII text: the letters A to Z move to a to z.\<close>

definition toLowerChar :: "char \<Rightarrow> char" where
  "toLowerChar c =
     (let n = (of_char c :: nat) in if 65 \<le> n \<and> n \<le> 90 then char_of (n + 32) else c)"

definition toLowerCase :: "string \<Rightarrow> string" where
  "toLowerCase s = map toLowerChar s"

text \<open>\<^verbatim>\<open>String.prototype.includes\<close>: the second string occurs contiguously in the first.\<close>

fun startsWith :: "string \<Rightarrow> string \<Rightarrow> bool" where
  "startsWith s [] = True"
| "startsWith [] (d # ds) = False"
| "startsWith (c # cs) (d # ds) = (c = d \<and> startsWith cs ds)"

fun str_includes :: "string \<Rightarrow> string \<Rightarrow> bool" where
  "str_includes [] t = (t = [])"
| "str_includes (c # cs) t = (startsWith (c # cs) t \<or> str_includes cs t)"

text \<open>\<^verbatim>\<open>code >= 500\<close>.\<close>

definition code_ge_500 :: "js_engine \<Rightarrow> err_code \<Rightarrow> bool" where
  "code_ge_500 js c =
     (case c of NumCode n \<Rightarrow> 500 \<le> n | StrCode s \<Rightarrow> stringAtLeast500 js s | NoCode \<Rightarrow> False)"

text \<open>\<^verbatim>\<open>error.message?.toLowerCase() || ''\<close>.\<close>

definition lowered_message :: "js_error \<Rightarrow> string" where
  "lowered_message error = (case message error of None \<Rightarrow> [] | Some m \<Rightarrow> toLowerCase m)"

text \<open>
  \<^verbatim>\<open>classifyError(error)\<close>: the chain of tests on an error object is \<open>classifyObject\<close>;
  on an unclassifiable value the first statement throws and there is no answer.
\<close>

definition classifyObject :: "js_engine \<Rightarrow> js_error \<Rightarrow> error_type" where
  "classifyObject js error =
     (let msg = lowered_message error; c = code error in
      if c = StrCode ''NETWORK_ERROR'' \<or> str_includes msg ''network''
           \<or> str_includes msg ''connection''
        then NETWORK_ERROR
      else if c = StrCode ''TIMEOUT'' \<or> str_includes msg ''timeout''
        then TIMEOUT
      else if c = StrCode ''RATE_LIMITED'' \<or> str_includes msg ''rate limit''
                \<or> str_includes msg ''too many requests''
        then RATE_LIMITED
      else if code_ge_500 js c \<or> str_includes msg ''server error''
                \<or> str_includes msg ''internal error''
        then SERVER_ERROR
      else if str_includes msg ''gas estimation'' \<or> str_includes msg ''cannot estimate gas''
        then GAS_ESTIMATION_FAILED
      else if str_includes msg ''insufficient funds''
                \<or> str_includes msg ''insufficient balance''
        then INSUFFICIENT_FUNDS
      else if str_includes msg ''revert'' \<or> str_includes msg ''execution reverted''
        then TRANSACTION_REVERTED
      else if str_includes msg ''nonce too low'' \<or> str_includes msg ''nonce''
        then NONCE_TOO_LOW
      else if str_includes msg ''gas price too low'' \<or> str_includes msg ''gas price''
        then GAS_PRICE_TOO_LOW
      else if str_includes msg ''contract'' \<or> str_includes msg ''call exception''
        then CONTRACT_ERROR
      else if str_includes msg ''invalid'' \<or> str_includes msg ''validation''
        then VALIDATION_ERROR
      else UNKNOWN_ERROR)"

definition classifyError :: "js_engine \<Rightarrow> caught \<Rightarrow> error_type option" where
  "classifyError js error =
     (case error of Unclassifiable \<Rightarrow> None | ErrorObject e \<Rightarrow> Some (classifyObject js e))"

definition retryableTypes :: "error_type list" where
  "retryableTypes =
     [NETWORK_ERROR, TIMEOUT, RATE_LIMITED, SERVER_ERROR, GAS_ESTIMATION_FAILED,
      NONCE_TOO_LOW, GAS_PRICE_TOO_LOW]"

definition isRetryable :: "error_type \<Rightarrow> bool" where
  "isRetryable errorType = (errorType \<in> set retryableTypes)"

text \<open>
  \<^verbatim>\<open>handleError\<close> classifies, logs, and returns the analysis; the log line is an effect on
  the logger only and is left out. Where the classification throws, so does
  \<^verbatim>\<open>handleError\<close>.
\<close>

record error_analysis =
  errorType :: error_type
  analysis_isRetryable :: bool

definition handleError :: "js_engine \<Rightarrow> caught \<Rightarrow> error_analysis option" where
  "handleError js error =
     (case classifyError js error of
        None \<Rightarrow> None
      | Some t \<Rightarrow> Some \<lparr>errorType = t, analysis_isRetryable = isRetryable t\<rparr>)"

section \<open>Retry policy (RetryConfig)\<close>

text \<open>
  The constructor reads each option through \<^verbatim>\<open>options.x || default\<close>: an absent option and
  the value 0 both give the default. Durations and factors are doubles; the attempt
  ceiling is a whole number.
\<close>

definition orDefault :: "'a::zero option \<Rightarrow> 'a \<Rightarrow> 'a" where
  "orDefault v d = (case v of None \<Rightarrow> d | Some x \<Rightarrow> if x = 0 then d else x)"

record retry_options =
  opt_maxRetries :: "int option"
  opt_baseDelay :: "real option"
  opt_maxDelay :: "real option"
  opt_exponentialBase :: "real option"
  opt_jitter :: "real option"

record RetryConfig =
  maxRetries :: int
  baseDelay :: real
  maxDelay :: real
  exponentialBase :: real
  jitter :: real

definition new_RetryConfig :: "retry_options \<Rightarrow> RetryConfig" where
  "new_RetryConfig options =
     \<lparr>maxRetries = orDefault (opt_maxRetries options) 3,
      baseDelay = orDefault (opt_baseDelay options) 1000,
      maxDelay = orDefault (opt_maxDelay options) 30000,
      exponentialBase = orDefault (opt_exponentialBase options) 2,
      jitter = orDefault (opt_jitter options) double_0_1\<rparr>"

text \<open>
  \<^verbatim>\<open>calculateDelay(attempt)\<close>; the draw of \<^verbatim>\<open>Math.random()\<close> is the argument \<open>rnd\<close>. Each
  product and the sum are rounded; \<^verbatim>\<open>delay * this.jitter * Math.random()\<close> multiplies from
  the left.
\<close>

definition calculateDelay :: "js_engine \<Rightarrow> RetryConfig \<Rightarrow> int \<Rightarrow> real \<Rightarrow> int" where
  "calculateDelay js cfg attempt rnd =
     (let exponentialDelay =
            roundDouble js (baseDelay cfg * mathPow js (exponentialBase cfg) (attempt - 1));
          delay = min exponentialDelay (maxDelay cfg);
          jitterAmount = roundDouble js (roundDouble js (delay * jitter cfg) * rnd)
      in \<lfloor>roundDouble js (delay + jitterAmount)\<rfloor>)"

section \<open>Circuit breaker (CircuitBreaker)\<close>

datatype breaker_state = CLOSED | OPEN | HALF_OPEN

record breaker_options =
  opt_failureThreshold :: "int option"
  opt_recoveryTimeout :: "int option"
  opt_monitoringPeriod :: "int option"

record CircuitBreaker =
  failureThreshold :: int
  recoveryTimeout :: int
  monitoringPeriod :: int
  failureCount :: int
  lastFailureTime :: "int option"
  state :: breaker_state
  failures :: "(int \<times> string) list"

definition new_CircuitBreaker :: "breaker_options \<Rightarrow> CircuitBreaker" where
  "new_CircuitBreaker options =
     \<lparr>failureThreshold = orDefault (opt_failureThreshold options) 5,
      recoveryTimeout = orDefault (opt_recoveryTimeout options) 60000,
      monitoringPeriod = orDefault (opt_monitoringPeriod options) 300000,
      failureCount = 0,
      lastFailureTime = None,
      state = CLOSED,
      failures = []\<rparr>"

text \<open>
  Every method that reads \<^verbatim>\<open>Date.now()\<close> takes the reading as its argument \<open>now\<close>. In
  \<^verbatim>\<open>now - this.lastFailureTime\<close> a null time counts as 0.
\<close>

definition canExecute :: "int \<Rightarrow> CircuitBreaker \<Rightarrow> bool \<times> CircuitBreaker" where
  "canExecute now cb =
     (case state cb of
        CLOSED \<Rightarrow> (True, cb)
      | OPEN \<Rightarrow>
          if recoveryTimeout cb \<le> now - (case lastFailureTime cb of None \<Rightarrow> 0 | Some t \<Rightarrow> t)
          then (True, cb\<lparr>state := HALF_OPEN\<rparr>)
          else (False, cb)
      | HALF_OPEN \<Rightarrow> (True, cb))"

definition onSuccess :: "CircuitBreaker \<Rightarrow> CircuitBreaker" where
  "onSuccess cb = cb\<lparr>failureCount := 0, state := CLOSED, failures := []\<rparr>"

text \<open>\<^verbatim>\<open>error.message || 'Unknown error'\<close>.\<close>

definition failure_text :: "js_error \<Rightarrow> string" where
  "failure_text error =
     (case message error of None \<Rightarrow> ''Unknown error''
      | Some m \<Rightarrow> if m = [] then ''Unknown error'' else m)"

definition onFailure :: "int \<Rightarrow> js_error \<Rightarrow> CircuitBreaker \<Rightarrow> CircuitBreaker" where
  "onFailure now error cb =
     (let cb1 = cb\<lparr>failureCount := failureCount cb + 1,
                   lastFailureTime := Some now,
                   failures := failures cb @ [(now, failure_text error)]\<rparr>;
          cutoff = now - monitoringPeriod cb1;
          cb2 = cb1\<lparr>failures := filter (\<lambda>f. cutoff < fst f) (failures cb1)\<rparr>
      in if failureThreshold cb2 \<le> failureCount cb2 then cb2\<lparr>state := OPEN\<rparr> else cb2)"

text \<open>\<^verbatim>\<open>RetryManager.resetCircuitBreaker\<close> writes the breaker's fields directly.\<close>

definition resetCircuitBreaker :: "CircuitBreaker \<Rightarrow> CircuitBreaker" where
  "resetCircuitBreaker cb = cb\<lparr>failureCount := 0, state := CLOSED, failures := []\<rparr>"

text \<open>A history of calls made on one breaker, oldest first.\<close>

datatype breaker_call = CanExecute int | OnSuccess | OnFailure int js_error | Reset

fun breaker_step :: "CircuitBreaker \<Rightarrow> breaker_call \<Rightarrow> CircuitBreaker" where
  "breaker_step cb (CanExecute now) = snd (canExecute now cb)"
| "breaker_step cb OnSuccess = onSuccess cb"
| "breaker_step cb (OnFailure now error) = onFailure now error cb"
| "breaker_step cb Reset = resetCircuitBreaker cb"

definition breaker_run :: "CircuitBreaker \<Rightarrow> breaker_call list \<Rightarrow> CircuitBreaker" where
  "breaker_run cb calls = foldl breaker_step cb calls"

section \<open>Retry executor (RetryManager.executeWithRetry)\<close>

text \<open>
  The surroundings of one logical task are a state of type \<open>'w\<close>, read and changed
  through the runtime: the engine, the clock, the random source and the timer behind
  \<^verbatim>\<open>sleep\<close>. The operation is an asynchronous closure: run in a world, it rejects with
  some value or resolves with a result, and leaves a new world.
\<close>

record 'w runtime =
  engine :: js_engine
  dateNow :: "'w \<Rightarrow> int"
  mathRandom :: "'w \<Rightarrow> real \<times> 'w"
  sleep :: "int \<Rightarrow> 'w \<Rightarrow> 'w"

text \<open>
  What a call can throw: an error object, the value \<^verbatim>\<open>undefined\<close> (the final
  \<^verbatim>\<open>throw lastError\<close> when the loop body never ran), or the TypeError of the engine that
  leaves \<^verbatim>\<open>handleError\<close> when the caught value is unclassifiable.
\<close>

datatype thrown = ThrownError js_error | ThrownUndefined | ThrownTypeError

definition circuitOpenError :: js_error where
  "circuitOpenError =
     \<lparr>code = NoCode, message = Some ''Circuit breaker is OPEN - operation not allowed''\<rparr>"

record RetryManager =
  retryConfig :: RetryConfig
  circuitBreaker :: CircuitBreaker

text \<open>
  The outcome of a run: what is returned or thrown, the manager and the world afterwards,
  and the outcome of every invocation of the operation in order (kept for the statements
  about how often the operation ran; the code does not store it).
\<close>

record ('w, 'r) run =
  outcome :: "thrown + 'r"
  breaker_after :: CircuitBreaker
  world_after :: 'w
  invocations :: "(caught + 'r) list"

definition invoked :: "(caught + 'r) \<Rightarrow> ('w, 'r) run \<Rightarrow> ('w, 'r) run" where
  "invoked x r = r\<lparr>invocations := x # invocations r\<rparr>"

text \<open>
  The loop. In the \<^verbatim>\<open>catch\<close> block \<^verbatim>\<open>handleError\<close> is awaited first: where it throws, its
  TypeError leaves \<^verbatim>\<open>executeWithRetry\<close> at once, before the breaker is told of the
  failure. A value that \<^verbatim>\<open>handleError\<close> has analysed is an error object.
\<close>

function retryLoop ::
  "'w runtime \<Rightarrow> RetryConfig \<Rightarrow> ('w \<Rightarrow> (caught + 'r) \<times> 'w) \<Rightarrow> int \<Rightarrow> js_error option
     \<Rightarrow> CircuitBreaker \<Rightarrow> 'w \<Rightarrow> ('w, 'r) run" where
  "retryLoop rt cfg operation attempt lastError cb w =
     (if attempt \<le> maxRetries cfg then
        (case operation w of
           (Inr result, w1) \<Rightarrow>
             \<lparr>outcome = Inr result, breaker_after = onSuccess cb, world_after = w1,
              invocations = [Inr result]\<rparr>
         | (Inl caughtValue, w1) \<Rightarrow>
             (case handleError (engine rt) caughtValue of
                None \<Rightarrow>
                  \<lparr>outcome = Inl ThrownTypeError, breaker_after = cb, world_after = w1,
                   invocations = [Inl caughtValue]\<rparr>
              | Some errorAnalysis \<Rightarrow>
                  (case caughtValue of
                     Unclassifiable \<Rightarrow>
                       \<lparr>outcome = Inl ThrownTypeError, breaker_after = cb, world_after = w1,
                        invocations = [Inl caughtValue]\<rparr>
                   | ErrorObject error \<Rightarrow>
                       (let cb1 = onFailure (dateNow rt w1) error cb
                        in if \<not> analysis_isRetryable errorAnalysis then
                             \<lparr>outcome = Inl (ThrownError error), breaker_after = cb1,
                              world_after = w1, invocations = [Inl caughtValue]\<rparr>
                           else if attempt = maxRetries cfg then
                             \<lparr>outcome = Inl (ThrownError error), breaker_after = cb1,
                              world_after = w1, invocations = [Inl caughtValue]\<rparr>
                           else
                             (case mathRandom rt w1 of
                                (rnd, w2) \<Rightarrow>
                                  invoked (Inl caughtValue)
                                    (retryLoop rt cfg operation (attempt + 1) (Some error) cb1
                                       (sleep rt (calculateDelay (engine rt) cfg attempt rnd)
                                          w2)))))))
      else
        \<lparr>outcome = Inl (case lastError of None \<Rightarrow> ThrownUndefined | Some e \<Rightarrow> ThrownError e),
         breaker_after = cb, world_after = w, invocations = []\<rparr>)"
  by pat_completeness auto
termination
  by (relation "measure (\<lambda>(rt, cfg, operation, attempt, lastError, cb, w).
        nat (maxRetries cfg + 1 - attempt))") auto

definition executeWithRetry ::
  "'w runtime \<Rightarrow> RetryManager \<Rightarrow> ('w \<Rightarrow> (caught + 'r) \<times> 'w) \<Rightarrow> 'w \<Rightarrow> ('w, 'r) run" where
  "executeWithRetry rt rm operation w =
     (case canExecute (dateNow rt w) (circuitBreaker rm) of
        (False, cb) \<Rightarrow>
          \<lparr>outcome = Inl (ThrownError circuitOpenError), breaker_after = cb, world_after = w,
           invocations = []\<rparr>
      | (True, cb) \<Rightarrow> retryLoop rt (retryConfig rm) operation 1 None cb w)"

text \<open>
  \<^verbatim>\<open>new RetryManager(logger, config)\<close> and the subclass \<^verbatim>\<open>TransactionRetryManager\<close>, which
  only presets the options (each again through \<^verbatim>\<open>||\<close>).
\<close>

definition new_RetryManager :: "retry_options \<Rightarrow> breaker_options \<Rightarrow> RetryManager" where
  "new_RetryManager retry breaker =
     \<lparr>retryConfig = new_RetryConfig retry, circuitBreaker = new_CircuitBreaker breaker\<rparr>"

definition new_TransactionRetryManager :: "retry_options \<Rightarrow> breaker_options \<Rightarrow> RetryManager" where
  "new_TransactionRetryManager retry breaker =
     new_RetryManager
       \<lparr>opt_maxRetries = Some (orDefault (opt_maxRetries retry) 5),
        opt_baseDelay = Some (orDefault (opt_baseDelay retry) 2000),
        opt_maxDelay = Some (orDefault (opt_maxDelay retry) 60000),
        opt_exponentialBase = Some (orDefault (opt_exponentialBase retry) 2),
        opt_jitter = Some (orDefault (opt_jitter retry) double_0_2)\<rparr>
       \<lparr>opt_failureThreshold = Some (orDefault (opt_failureThreshold breaker) 3),
        opt_recoveryTimeout = Some (orDefault (opt_recoveryTimeout breaker) 120000),
        opt_monitoringPeriod = Some (orDefault (opt_monitoringPeriod breaker) 600000)\<rparr>"


text \<open>The operation fails at every invocation, each time with an error of a retryable kind.\<close>

definition retryableRejection :: "js_engine \<Rightarrow> caught + 'r \<Rightarrow> bool" where
  "retryableRejection js x =
     (case x of
        Inr r \<Rightarrow> False
      | Inl e \<Rightarrow> (case classifyError js e of None \<Rightarrow> False | Some t \<Rightarrow> isRetryable t))"

definition alwaysFailsRetryable :: "js_engine \<Rightarrow> ('w \<Rightarrow> (caught + 'r) \<times> 'w) \<Rightarrow> bool" where
  "alwaysFailsRetryable js operation = (\<forall>w. retryableRejection js (fst (operation w)))"

text \<open>
  The world in which the next attempt starts after attempt number \<open>attempt\<close>, started in
  \<open>w\<close>, has failed and is retried: the operation has run, the random number is drawn
  and the delay is slept. And the world in which the \<open>k\<close>-th attempt after attempt number
  \<open>attempt\<close> starts when every attempt in between is retried.
\<close>

definition after_retry ::
  "'w runtime \<Rightarrow> RetryConfig \<Rightarrow> ('w \<Rightarrow> (caught + 'r) \<times> 'w) \<Rightarrow> int \<Rightarrow> 'w \<Rightarrow> 'w" where
  "after_retry rt cfg operation attempt w =
     (case mathRandom rt (snd (operation w)) of
        (rnd, w2) \<Rightarrow> sleep rt (calculateDelay (engine rt) cfg attempt rnd) w2)"

fun attempt_world ::
  "'w runtime \<Rightarrow> RetryConfig \<Rightarrow> ('w \<Rightarrow> (caught + 'r) \<times> 'w) \<Rightarrow> int \<Rightarrow> 'w \<Rightarrow> nat \<Rightarrow> 'w" where
  "attempt_world rt cfg operation attempt w 0 = w"
| "attempt_world rt cfg operation attempt w (Suc k) =
     after_retry rt cfg operation (attempt + int k)
       (attempt_world rt cfg operation attempt w k)"

section \<open>Gas price estimation (utils/logger.js, GasOptimizer)\<close>

record network_config =
  gasMultiplier :: real
  minGasPrice :: int
  maxGasPrice :: int

record gas_entry =
  entry_timestamp :: int
  entry_gasPrice :: int
  entry_baseFee :: int

record GasOptimizer =
  gasHistory :: "gas_entry list"
  maxHistorySize :: nat

definition new_GasOptimizer :: GasOptimizer where
  "new_GasOptimizer = \<lparr>gasHistory = [], maxHistorySize = 100\<rparr>"

text \<open>Division of BigInt values rounds towards zero.\<close>

definition bigint_div :: "int \<Rightarrow> int \<Rightarrow> int" where
  "bigint_div a b = sgn a * sgn b * (\<bar>a\<bar> div \<bar>b\<bar>)"

text \<open>
  A fee-data answer without a gas price (\<^verbatim>\<open>null\<close>) makes the multiplication throw a
  TypeError, which the \<^verbatim>\<open>catch\<close> logs and throws again.
\<close>

definition bigintMixError :: js_error where
  "bigintMixError =
     \<lparr>code = NoCode,
      message = Some ''Cannot mix BigInt and other types, use explicit conversions''\<rparr>"

text \<open>
  \<^verbatim>\<open>estimateOptimalGasPrice(provider)\<close>. The outcome of \<^verbatim>\<open>await provider.getFeeData()\<close> is the
  argument \<open>feeData\<close> (a rejection, or the \<^verbatim>\<open>gasPrice\<close> member of the answer), and \<open>now\<close> is
  the clock reading stored with the observation. The multiplier is a double;
  \<^verbatim>\<open>gasMultiplier * 100\<close> is a product of doubles, rounded before \<^verbatim>\<open>Math.floor\<close>.
\<close>

definition estimateOptimalGasPrice ::
  "js_engine \<Rightarrow> network_config \<Rightarrow> int \<Rightarrow> js_error + int option \<Rightarrow> GasOptimizer
     \<Rightarrow> (js_error + int) \<times> GasOptimizer" where
  "estimateOptimalGasPrice js networkConfig now feeData go =
     (case feeData of
        Inl error \<Rightarrow> (Inl error, go)
      | Inr None \<Rightarrow> (Inl bigintMixError, go)
      | Inr (Some quote) \<Rightarrow>
          (let multiplied =
                 bigint_div (quote * \<lfloor>roundDouble js (gasMultiplier networkConfig * 100)\<rfloor>) 100;
               gasPrice =
                 (if multiplied < minGasPrice networkConfig then minGasPrice networkConfig
                  else if multiplied > maxGasPrice networkConfig then maxGasPrice networkConfig
                  else multiplied);
               pushed = gasHistory go @
                 [\<lparr>entry_timestamp = now, entry_gasPrice = gasPrice, entry_baseFee = quote\<rparr>];
               kept =
                 (if length pushed > maxHistorySize go
                  then drop (length pushed - maxHistorySize go) pushed else pushed)
           in (Inr gasPrice, go\<lparr>gasHistory := kept\<rparr>)))"

section \<open>Transaction lifecycle tracking (utils/logger.js, TransactionMonitor)\<close>

record 'm pending_record =
  txData :: 'm
  startTime :: int
  status :: string

record monitor_metrics =
  totalTransactions :: int
  successfulTransactions :: int
  failedTransactions :: int
  totalGasUsed :: int
  totalFeesPaid :: int
  averageGasPrice :: int
  metrics_startTime :: int

record ('m, 'f) TransactionMonitor =
  pendingTransactions :: "string \<rightharpoonup> 'm pending_record"
  completedTransactions :: "string \<rightharpoonup> 'f"
  failedTransactions_map :: "string \<rightharpoonup> 'f"
  metrics :: monitor_metrics

definition new_TransactionMonitor :: "int \<Rightarrow> ('m, 'f) TransactionMonitor" where
  "new_TransactionMonitor now =
     \<lparr>pendingTransactions = Map.empty, completedTransactions = Map.empty,
      failedTransactions_map = Map.empty,
      metrics = \<lparr>totalTransactions = 0, successfulTransactions = 0, failedTransactions = 0,
                 totalGasUsed = 0, totalFeesPaid = 0, averageGasPrice = 0,
                 metrics_startTime = now\<rparr>\<rparr>"

text \<open>
  \<^verbatim>\<open>startMonitoring(txHash, txData)\<close>: the new record spreads \<^verbatim>\<open>txData\<close> and then sets the
  start time and the status.
\<close>

definition startMonitoring ::
  "int \<Rightarrow> string \<Rightarrow> 'm \<Rightarrow> ('m, 'f) TransactionMonitor \<Rightarrow> ('m, 'f) TransactionMonitor" where
  "startMonitoring now txHash data tm =
     tm\<lparr>pendingTransactions :=
          (pendingTransactions tm)
            (txHash \<mapsto> \<lparr>txData = data, startTime = now, status = ''pending''\<rparr>),
        metrics := (metrics tm)\<lparr>totalTransactions := totalTransactions (metrics tm) + 1\<rparr>\<rparr>"

section \<open>Bundle orchestration (OptimizedBundlerBot)\<close>

text \<open>
  The provider, the wallet and the relay are collaborators. Every call to one of them is
  recorded in a history, oldest first, and what a collaborator answers is a function of
  the history before the call: any behaviour of the outside world over one sequential
  run is such a function.
\<close>

datatype step_kind =
    DeployToken | ApproveWbnbNfpm | ApproveTokenNfpm | CreatePool | AddLiquidity
  | ApproveWbnbRouter | BuySwap | FeeTransfer

text \<open>The body of a relay answer: a result, or an error member reporting failure.\<close>

datatype relay_response = RelayResult string | RelayError string

datatype event =
    FeeDataCall
  | TransactionCountCall
  | BlockNumberCall
  | SignCall step_kind int int
  | SimulateCall "string list" int
  | SubmitCall "string list" int
  | RandomCall
  | Slept int

record chain =
  jsEngine :: js_engine
  clock :: "event list \<Rightarrow> int"
  randomDraw :: "event list \<Rightarrow> real"
  getFeeData :: "event list \<Rightarrow> js_error + int option"
  getTransactionCount :: "event list \<Rightarrow> js_error + int"
  getBlockNumber :: "event list \<Rightarrow> js_error + int"
  getCreateAddress :: "int \<Rightarrow> string"
  signStep :: "step_kind \<Rightarrow> int \<Rightarrow> int \<Rightarrow> event list \<Rightarrow> js_error + string"
  postSimulate :: "string list \<Rightarrow> int \<Rightarrow> event list \<Rightarrow> js_error + relay_response"
  postSubmit :: "string list \<Rightarrow> int \<Rightarrow> event list \<Rightarrow> js_error + relay_response"

record bot =
  history :: "event list"
  gasOptimizer :: GasOptimizer

text \<open>An awaited call: a rejection leaves the enclosing function at once.\<close>

definition andThen ::
  "('s \<Rightarrow> (js_error + 'a) \<times> 's) \<Rightarrow> ('a \<Rightarrow> 's \<Rightarrow> (js_error + 'b) \<times> 's)
     \<Rightarrow> 's \<Rightarrow> (js_error + 'b) \<times> 's" where
  "andThen m f s = (case m s of (Inl e, s1) \<Rightarrow> (Inl e, s1) | (Inr x, s1) \<Rightarrow> f x s1)"

definition external :: "event \<Rightarrow> (event list \<Rightarrow> js_error + 'a) \<Rightarrow> bot \<Rightarrow> (js_error + 'a) \<times> bot" where
  "external ev answer s = (answer (history s), s\<lparr>history := history s @ [ev]\<rparr>)"

definition getOptimalGasPrice :: "chain \<Rightarrow> network_config \<Rightarrow> bot \<Rightarrow> (js_error + int) \<times> bot" where
  "getOptimalGasPrice ch net s =
     (case estimateOptimalGasPrice (jsEngine ch) net (clock ch (history s @ [FeeDataCall]))
             (getFeeData ch (history s)) (gasOptimizer s) of
        (r, go) \<Rightarrow> (r, s\<lparr>history := history s @ [FeeDataCall], gasOptimizer := go\<rparr>))"

definition getCurrentNonce :: "chain \<Rightarrow> bot \<Rightarrow> (js_error + int) \<times> bot" where
  "getCurrentNonce ch = external TransactionCountCall (getTransactionCount ch)"

definition getFutureBlockNumber :: "chain \<Rightarrow> bot \<Rightarrow> (js_error + int) \<times> bot" where
  "getFutureBlockNumber ch =
     andThen (external BlockNumberCall (getBlockNumber ch))
       (\<lambda>currentBlock s. (Inr (currentBlock + 5), s))"

text \<open>
  The six \<^verbatim>\<open>create...Transaction\<close> methods differ in the payload they encode. Each puts
  the nonce and the gas price it is given into the transaction, has the wallet sign it,
  and returns the signed text. Encoding, gas-limit estimation and signing belong to the
  collaborators; the call is recorded with its step, nonce and gas price.
\<close>

definition createTransaction ::
  "chain \<Rightarrow> step_kind \<Rightarrow> int \<Rightarrow> int \<Rightarrow> bot \<Rightarrow> (js_error + string) \<times> bot" where
  "createTransaction ch kind nonce gasPrice =
     external (SignCall kind nonce gasPrice) (signStep ch kind nonce gasPrice)"

definition simulateBundle ::
  "chain \<Rightarrow> string list \<Rightarrow> int \<Rightarrow> bot \<Rightarrow> (js_error + relay_response) \<times> bot" where
  "simulateBundle ch transactions blockNumber =
     external (SimulateCall transactions blockNumber) (postSimulate ch transactions blockNumber)"

definition submitBundle ::
  "chain \<Rightarrow> string list \<Rightarrow> int \<Rightarrow> bot \<Rightarrow> (js_error + relay_response) \<times> bot" where
  "submitBundle ch transactions blockNumber =
     external (SubmitCall transactions blockNumber) (postSubmit ch transactions blockNumber)"

record bundle_result =
  tokenAddress :: string
  transactions :: "string list"
  simulationResult :: relay_response
  submissionResult :: relay_response

text \<open>
  The function handed to the retry manager by \<^verbatim>\<open>executeBundle\<close>, in two parts. First the
  assembly: one gas price, one nonce and one target block are fetched, then the eight
  transactions are built in order, the nonce incremented before each but the first.
\<close>

definition assembleBundle ::
  "chain \<Rightarrow> network_config \<Rightarrow> bot \<Rightarrow> (js_error + string \<times> string list \<times> int) \<times> bot" where
  "assembleBundle ch net =
     andThen (getOptimalGasPrice ch net) (\<lambda>gasPrice.
     andThen (getCurrentNonce ch) (\<lambda>nonce.
     andThen (getFutureBlockNumber ch) (\<lambda>futureBlockNumber.
     andThen (createTransaction ch DeployToken nonce gasPrice) (\<lambda>rawTx0.
     andThen (createTransaction ch ApproveWbnbNfpm (nonce + 1) gasPrice) (\<lambda>rawApprove0.
     andThen (createTransaction ch ApproveTokenNfpm (nonce + 2) gasPrice) (\<lambda>rawApprove1.
     andThen (createTransaction ch CreatePool (nonce + 3) gasPrice) (\<lambda>rawCreatePool.
     andThen (createTransaction ch AddLiquidity (nonce + 4) gasPrice) (\<lambda>rawAddLiquidity.
     andThen (createTransaction ch ApproveWbnbRouter (nonce + 5) gasPrice) (\<lambda>buyApprovalRaw.
     andThen (createTransaction ch BuySwap (nonce + 6) gasPrice) (\<lambda>rawBuyTx.
     andThen (createTransaction ch FeeTransfer (nonce + 7) gasPrice) (\<lambda>rawTransferTx s.
       (Inr (getCreateAddress ch nonce,
             [rawTx0, rawApprove0, rawApprove1, rawCreatePool, rawAddLiquidity,
              buyApprovalRaw, rawBuyTx, rawTransferTx],
             futureBlockNumber), s))))))))))))"

text \<open>
  Then the relay: the bundle is simulated, the answer is logged, the bundle is submitted,
  the answer is logged, and both answers are returned.
\<close>

definition relayBundle ::
  "chain \<Rightarrow> string \<times> string list \<times> int \<Rightarrow> bot \<Rightarrow> (js_error + bundle_result) \<times> bot" where
  "relayBundle ch assembled =
     (case assembled of (token, txs, futureBlockNumber) \<Rightarrow>
        andThen (simulateBundle ch txs futureBlockNumber) (\<lambda>simulation.
        andThen (submitBundle ch txs futureBlockNumber) (\<lambda>submission s.
          (Inr \<lparr>tokenAddress = token, transactions = txs,
                simulationResult = simulation, submissionResult = submission\<rparr>, s))))"

definition bundleFunction ::
  "chain \<Rightarrow> network_config \<Rightarrow> bot \<Rightarrow> (js_error + bundle_result) \<times> bot" where
  "bundleFunction ch net = andThen (assembleBundle ch net) (relayBundle ch)"





section \<open>Call histories and scenarios\<close>

text \<open>Calls on a breaker that leave its failure count alone or raise it.\<close>

fun isOnFailure :: "breaker_call \<Rightarrow> bool" where
  "isOnFailure (OnFailure now error) = True"
| "isOnFailure c = False"

definition keepsCount :: "breaker_call \<Rightarrow> bool" where
  "keepsCount c = (c \<noteq> OnSuccess \<and> c \<noteq> Reset)"

text \<open>
  The breaker's invariant: outside CLOSED the failure count has reached the threshold.
\<close>

definition breaker_inv :: "CircuitBreaker \<Rightarrow> bool" where
  "breaker_inv cb = (state cb = CLOSED \<or> failureThreshold cb \<le> failureCount cb)"

text \<open>
  An engine for concrete runs. It rounds nothing, raises to a whole power exactly, and
  reads a string of decimal digits as the number it spells and any other string as no
  number. On the whole numbers, halves and quarters met below, an engine rounds nothing
  either; with the jitter fraction 0.2 of the default manager the rounded and the
  unrounded delay have the same floor (2200, 4400, 8800 and 17600 milliseconds).
\<close>

definition digitValue :: "char \<Rightarrow> nat option" where
  "digitValue = map_of (zip ''0123456789'' [0, 1, 2, 3, 4, 5, 6, 7, 8, 9])"

fun decimalValue :: "nat \<Rightarrow> string \<Rightarrow> nat option" where
  "decimalValue acc [] = Some acc"
| "decimalValue acc (c # cs) =
     (case digitValue c of None \<Rightarrow> None | Some d \<Rightarrow> decimalValue (10 * acc + d) cs)"

definition decimalAtLeast500 :: "string \<Rightarrow> bool" where
  "decimalAtLeast500 s = (case decimalValue 0 s of None \<Rightarrow> False | Some n \<Rightarrow> 500 \<le> n)"

definition scenario_engine :: js_engine where
  "scenario_engine =
     \<lparr>roundDouble = (\<lambda>x. x), mathPow = (\<lambda>x k. power_int x k),
      stringAtLeast500 = decimalAtLeast500\<rparr>"

text \<open>
  A small world for concrete runs: the world is the clock reading in milliseconds, the
  random draw is always one half, sleeping moves the clock on by the delay, and the
  operation takes ten milliseconds to fail with a timeout.
\<close>

definition timeoutError :: js_error where
  "timeoutError =
     \<lparr>code = StrCode ''TIMEOUT'', message = Some ''timeout of 30000ms exceeded''\<rparr>"

definition clock_runtime :: "int runtime" where
  "clock_runtime =
     \<lparr>engine = scenario_engine, dateNow = (\<lambda>w. w), mathRandom = (\<lambda>w. (1 / 2, w)),
      sleep = (\<lambda>ms w. w + ms)\<rparr>"

definition always_timeout :: "int \<Rightarrow> (caught + unit) \<times> int" where
  "always_timeout w = (Inl (ErrorObject timeoutError), w + 10)"

text \<open>
  And an operation whose timeout error tells when it was thrown: within the first half
  minute or later.
\<close>

definition timeoutAt :: "int \<Rightarrow> js_error" where
  "timeoutAt w =
     \<lparr>code = StrCode ''TIMEOUT'',
      message = Some (if w < 30000 then ''timeout'' else ''timeout after 30 seconds'')\<rparr>"

definition dated_timeout :: "int \<Rightarrow> (caught + unit) \<times> int" where
  "dated_timeout w = (Inl (ErrorObject (timeoutAt w)), w + 10)"

definition no_retry_options :: retry_options where
  "no_retry_options =
     \<lparr>opt_maxRetries = None, opt_baseDelay = None, opt_maxDelay = None,
      opt_exponentialBase = None, opt_jitter = None\<rparr>"

definition no_breaker_options :: breaker_options where
  "no_breaker_options =
     \<lparr>opt_failureThreshold = None, opt_recoveryTimeout = None, opt_monitoringPeriod = None\<rparr>"

text \<open>The transaction retry manager with its defaults: five attempts, threshold three.\<close>

definition default_manager :: RetryManager where
  "default_manager = new_TransactionRetryManager no_retry_options no_breaker_options"

definition two_failures_options :: breaker_options where
  "two_failures_options =
     \<lparr>opt_failureThreshold = Some 2, opt_recoveryTimeout = Some 1000,
      opt_monitoringPeriod = None\<rparr>"

text \<open>The same manager with its breaker already OPEN since time 0.\<close>

definition open_manager :: RetryManager where
  "open_manager =
     default_manager\<lparr>circuitBreaker :=
       (circuitBreaker default_manager)\<lparr>failureCount := 3, lastFailureTime := Some 0, state := OPEN\<rparr>\<rparr>"

text \<open>
  The same manager as a first call leaves it: \<^verbatim>\<open>executeWithRetry\<close> has run on the operation
  that always times out, from time 0, and the second call comes a second after the
  first has ended.
\<close>

definition first_call :: "(int, unit) run" where
  "first_call = executeWithRetry clock_runtime default_manager always_timeout 0"

definition tripped_manager :: RetryManager where
  "tripped_manager = default_manager\<lparr>circuitBreaker := breaker_after first_call\<rparr>"

definition second_call_time :: int where
  "second_call_time = world_after first_call + 1000"

section \<open>The classification as an ordered rule table\<close>

text \<open>
  The spec's wording of the classifier: an ordered list of rules, each with a category,
  a test on the error code and a list of message substrings; the rules are tried top to
  bottom, the first one that matches gives the category, and \<open>UNKNOWN_ERROR\<close> is the
  default. The code test of the server category is \<^verbatim>\<open>code >= 500\<close>. This table is
  compared with \<open>classifyError\<close> below.
\<close>

record rule =
  rule_kind :: error_type
  rule_code :: "err_code \<Rightarrow> bool"
  rule_substrings :: "string list"

definition classification_rules :: "js_engine \<Rightarrow> rule list" where
  "classification_rules js =
     [\<lparr>rule_kind = NETWORK_ERROR, rule_code = (\<lambda>c. c = StrCode ''NETWORK_ERROR''),
       rule_substrings = [''network'', ''connection'']\<rparr>,
      \<lparr>rule_kind = TIMEOUT, rule_code = (\<lambda>c. c = StrCode ''TIMEOUT''),
       rule_substrings = [''timeout'']\<rparr>,
      \<lparr>rule_kind = RATE_LIMITED, rule_code = (\<lambda>c. c = StrCode ''RATE_LIMITED''),
       rule_substrings = [''rate limit'', ''too many requests'']\<rparr>,
      \<lparr>rule_kind = SERVER_ERROR, rule_code = code_ge_500 js,
       rule_substrings = [''server error'', ''internal error'']\<rparr>,
      \<lparr>rule_kind = GAS_ESTIMATION_FAILED, rule_code = (\<lambda>c. False),
       rule_substrings = [''gas estimation'', ''cannot estimate gas'']\<rparr>,
      \<lparr>rule_kind = INSUFFICIENT_FUNDS, rule_code = (\<lambda>c. False),
       rule_substrings = [''insufficient funds'', ''insufficient balance'']\<rparr>,
      \<lparr>rule_kind = TRANSACTION_REVERTED, rule_code = (\<lambda>c. False),
       rule_substrings = [''revert'', ''execution reverted'']\<rparr>,
      \<lparr>rule_kind = NONCE_TOO_LOW, rule_code = (\<lambda>c. False),
       rule_substrings = [''nonce too low'', ''nonce'']\<rparr>,
      \<lparr>rule_kind = GAS_PRICE_TOO_LOW, rule_code = (\<lambda>c. False),
       rule_substrings = [''gas price too low'', ''gas price'']\<rparr>,
      \<lparr>rule_kind = CONTRACT_ERROR, rule_code = (\<lambda>c. False),
       rule_substrings = [''contract'', ''call exception'']\<rparr>,
      \<lparr>rule_kind = VALIDATION_ERROR, rule_code = (\<lambda>c. False),
       rule_substrings = [''invalid'', ''validation'']\<rparr>]"

definition rule_matches :: "err_code \<Rightarrow> string \<Rightarrow> rule \<Rightarrow> bool" where
  "rule_matches c msg r = (rule_code r c \<or> list_ex (str_includes msg) (rule_substrings r))"

fun first_match :: "rule list \<Rightarrow> err_code \<Rightarrow> string \<Rightarrow> error_type" where
  "first_match [] c msg = UNKNOWN_ERROR"
| "first_match (r # rs) c msg = (if rule_matches c msg r then rule_kind r else first_match rs c msg)"

text \<open>Errors used as concrete inputs of the classifier.\<close>

definition timeout_code_only :: js_error where
  "timeout_code_only = \<lparr>code = StrCode ''TIMEOUT'', message = Some ''Request Aborted''\<rparr>"

definition timeout_code_network_message :: js_error where
  "timeout_code_network_message =
     \<lparr>code = StrCode ''TIMEOUT'', message = Some ''Network request failed''\<rparr>"

definition unmatched_error :: js_error where
  "unmatched_error = \<lparr>code = NoCode, message = Some ''Something odd''\<rparr>"


definition status_503_code :: js_error where
  "status_503_code = \<lparr>code = StrCode ''503'', message = Some ''Service Unavailable''\<rparr>"

section \<open>Derived quantities and concrete inputs\<close>

text \<open>
  The delay in the spec's words, evaluated by the engine: the capped delay is the
  smaller of base times factor to the power \<open>n - 1\<close> and the maximum, and the delay is
  the floor of the capped delay plus the capped delay times the jitter fraction times
  the draw. The ceiling is what that gives at the cap with the draw replaced by one.
\<close>

definition capped_delay :: "js_engine \<Rightarrow> RetryConfig \<Rightarrow> int \<Rightarrow> real" where
  "capped_delay js cfg n =
     min (roundDouble js (baseDelay cfg * mathPow js (exponentialBase cfg) (n - 1)))
       (maxDelay cfg)"

definition jittered_delay :: "js_engine \<Rightarrow> RetryConfig \<Rightarrow> int \<Rightarrow> real \<Rightarrow> int" where
  "jittered_delay js cfg n rnd =
     \<lfloor>roundDouble js (capped_delay js cfg n
        + roundDouble js (roundDouble js (capped_delay js cfg n * jitter cfg) * rnd))\<rfloor>"

definition delay_ceiling :: "js_engine \<Rightarrow> RetryConfig \<Rightarrow> int" where
  "delay_ceiling js cfg =
     \<lfloor>roundDouble js (maxDelay cfg + roundDouble js (maxDelay cfg * jitter cfg))\<rfloor>"

text \<open>
  The retry policy with base 1000, maximum 30000 and factor 2 by default, and a jitter
  fraction of one half: every number the delay computation meets is a whole number or a
  half, so no operation rounds.
\<close>

definition half_jitter_policy :: RetryConfig where
  "half_jitter_policy = new_RetryConfig (no_retry_options\<lparr>opt_jitter := Some (1 / 2)\<rparr>)"

text \<open>The provider's quote after the multiplier, before the bounds are applied.\<close>

definition multiplied_quote :: "js_engine \<Rightarrow> network_config \<Rightarrow> int \<Rightarrow> int" where
  "multiplied_quote js net quote =
     bigint_div (quote * \<lfloor>roundDouble js (gasMultiplier net * 100)\<rfloor>) 100"

text \<open>A network configuration with the multiplier 1.25, which is a double.\<close>

definition bsc_config :: network_config where
  "bsc_config = \<lparr>gasMultiplier = 5 / 4, minGasPrice = 3000000000, maxGasPrice = 20000000000\<rparr>"

text \<open>A tracker in which the id \<^verbatim>\<open>0xabc\<close> has a pending record.\<close>

definition one_pending :: "(string, unit) TransactionMonitor" where
  "one_pending = startMonitoring 100 ''0xabc'' ''first'' (new_TransactionMonitor 0)"

text \<open>
  The calls one assembly makes, for the gas price and the nonce it fetched, and the
  events picked out of a history below.
\<close>

definition assembly_calls :: "int \<Rightarrow> int \<Rightarrow> event list" where
  "assembly_calls gasPrice nonce =
     [FeeDataCall, TransactionCountCall, BlockNumberCall,
      SignCall DeployToken nonce gasPrice,
      SignCall ApproveWbnbNfpm (nonce + 1) gasPrice,
      SignCall ApproveTokenNfpm (nonce + 2) gasPrice,
      SignCall CreatePool (nonce + 3) gasPrice,
      SignCall AddLiquidity (nonce + 4) gasPrice,
      SignCall ApproveWbnbRouter (nonce + 5) gasPrice,
      SignCall BuySwap (nonce + 6) gasPrice,
      SignCall FeeTransfer (nonce + 7) gasPrice]"


text \<open>
  Two behaviours of the outside world. In both the provider quotes 5 gwei (times 1.25
  gives 6.25 gwei), the pending count is 7 and the block height 100. In the first the
  relay answers the simulation with an error member and accepts the submission. In the
  second the relay answers the submission with status 400, which the HTTP client throws
  as an error.
\<close>

definition fresh_bot :: bot where
  "fresh_bot = \<lparr>history = [], gasOptimizer = new_GasOptimizer\<rparr>"

definition failing_simulation_chain :: chain where
  "failing_simulation_chain =
     \<lparr>jsEngine = scenario_engine,
      clock = (\<lambda>h. int (length h)),
      randomDraw = (\<lambda>h. 1 / 2),
      getFeeData = (\<lambda>h. Inr (Some 5000000000)),
      getTransactionCount = (\<lambda>h. Inr 7),
      getBlockNumber = (\<lambda>h. Inr 100),
      getCreateAddress = (\<lambda>n. ''0xtoken''),
      signStep = (\<lambda>kind n g h. Inr ''signed''),
      postSimulate = (\<lambda>txs blk h. Inr (RelayError ''execution reverted'')),
      postSubmit = (\<lambda>txs blk h. Inr (RelayResult ''accepted''))\<rparr>"


text \<open>The bot states and the bundle these runs pass through.\<close>

definition eight_signed :: "string list" where
  "eight_signed =
     [''signed'', ''signed'', ''signed'', ''signed'', ''signed'', ''signed'', ''signed'',
      ''signed'']"

definition assembled_history :: "event list" where
  "assembled_history = assembly_calls 6250000000 7"

definition after_assembly :: bot where
  "after_assembly =
     \<lparr>history = assembled_history,
      gasOptimizer = \<lparr>gasHistory =
        [\<lparr>entry_timestamp = 1, entry_gasPrice = 6250000000, entry_baseFee = 5000000000\<rparr>],
        maxHistorySize = 100\<rparr>\<rparr>"




section \<open>The primitives: substring test and BigInt division\<close>

text \<open>
  \<open>str_includes\<close> is the contiguous-substring relation, and \<open>bigint_div\<close> is the
  division that drops the fraction.
\<close>

lemma startsWith_iff: "startsWith s t \<longleftrightarrow> (\<exists>q. s = t @ q)"
  by (induction s t rule: startsWith.induct) auto

lemma str_includes_iff: "str_includes s t \<longleftrightarrow> (\<exists>p q. s = p @ t @ q)"
proof (induction s)
  case Nil
  show ?case by auto
next
  case (Cons c cs)
  have "(\<exists>p q. c # cs = p @ t @ q) \<longleftrightarrow> (\<exists>q. c # cs = t @ q) \<or> (\<exists>p q. cs = p @ t @ q)"
  proof
    assume "\<exists>p q. c # cs = p @ t @ q"
    then obtain p q where pq: "c # cs = p @ t @ q" by blast
    show "(\<exists>q. c # cs = t @ q) \<or> (\<exists>p q. cs = p @ t @ q)"
    proof (cases p)
      case Nil
      with pq show ?thesis by auto
    next
      case (Cons d ds)
      with pq have "cs = ds @ t @ q" by simp
      then show ?thesis by blast
    qed
  next
    assume "(\<exists>q. c # cs = t @ q) \<or> (\<exists>p q. cs = p @ t @ q)"
    then show "\<exists>p q. c # cs = p @ t @ q"
    proof
      assume "\<exists>q. c # cs = t @ q"
      then obtain q where "c # cs = [] @ t @ q" by auto
      then show ?thesis by blast
    next
      assume "\<exists>p q. cs = p @ t @ q"
      then obtain p q where "c # cs = (c # p) @ t @ q" by auto
      then show ?thesis by blast
    qed
  qed
  with Cons show ?case by (simp add: startsWith_iff)
qed

lemma bigint_div_nonneg: "0 \<le> a \<Longrightarrow> 0 < b \<Longrightarrow> bigint_div a b = a div b"
  by (cases "a = 0") (simp_all add: bigint_div_def)

lemma bigint_div_neg: "a < 0 \<Longrightarrow> 0 < b \<Longrightarrow> bigint_div a b = - ((- a) div b)"
  by (simp add: bigint_div_def)

section \<open>Properties of the circuit breaker\<close>

lemma onFailure_fields:
  "failureCount (onFailure now e cb) = failureCount cb + 1"
  "failureThreshold (onFailure now e cb) = failureThreshold cb"
  "recoveryTimeout (onFailure now e cb) = recoveryTimeout cb"
  "lastFailureTime (onFailure now e cb) = Some now"
  by (simp_all add: onFailure_def Let_def)

lemma onFailure_state:
  "state (onFailure now e cb) =
     (if failureThreshold cb \<le> failureCount cb + 1 then OPEN else state cb)"
  by (simp add: onFailure_def Let_def)

lemma canExecute_keeps:
  "failureCount (snd (canExecute now cb)) = failureCount cb"
  "failureThreshold (snd (canExecute now cb)) = failureThreshold cb"
  "recoveryTimeout (snd (canExecute now cb)) = recoveryTimeout cb"
  by (simp_all add: canExecute_def split: breaker_state.splits)

lemma canExecute_refuses:
  "\<not> fst (canExecute now cb) \<Longrightarrow> snd (canExecute now cb) = cb"
  by (simp add: canExecute_def split: breaker_state.splits if_splits)

lemma breaker_run_snoc: "breaker_run cb (calls @ [c]) = breaker_step (breaker_run cb calls) c"
  by (simp add: breaker_run_def)

lemma breaker_run_config:
  "failureThreshold (breaker_run cb calls) = failureThreshold cb
   \<and> recoveryTimeout (breaker_run cb calls) = recoveryTimeout cb"
proof (induction calls rule: rev_induct)
  case Nil
  show ?case by (simp add: breaker_run_def)
next
  case (snoc c calls)
  then show ?case
    by (cases c)
       (simp_all add: breaker_run_snoc canExecute_keeps onFailure_fields onSuccess_def
          resetCircuitBreaker_def)
qed

lemma breaker_run_count:
  assumes "list_all keepsCount calls"
  shows "failureCount (breaker_run cb calls)
           = failureCount cb + int (length (filter isOnFailure calls))"
  using assms
proof (induction calls rule: rev_induct)
  case Nil
  show ?case by (simp add: breaker_run_def)
next
  case (snoc c calls)
  then show ?case
    by (cases c)
       (simp_all add: breaker_run_snoc canExecute_keeps onFailure_fields keepsCount_def)
qed

text \<open>
  Claim C6. Start from a fresh breaker and make calls on it among which there is no
  \<^verbatim>\<open>onSuccess\<close> (and no reset) and of which exactly \<^verbatim>\<open>failureThreshold\<close> are \<^verbatim>\<open>onFailure\<close>, the
  last one at time \<open>t\<close>. Then the breaker is OPEN with \<open>t\<close> as its last failure time. As
  long as less than \<^verbatim>\<open>recoveryTimeout\<close> has passed since \<open>t\<close>, \<^verbatim>\<open>canExecute\<close> answers false
  and changes nothing. From then on \<^verbatim>\<open>canExecute\<close> answers true and moves the breaker to
  HALF_OPEN, and an \<^verbatim>\<open>onSuccess\<close> after it gives CLOSED, a failure count of 0 and an empty
  failure history.
\<close>

theorem breaker_opens_then_recovers:
  assumes "list_all keepsCount calls"
    and "int (length (filter isOnFailure calls)) + 1
           = failureThreshold (new_CircuitBreaker options)"
    and "cb = breaker_run (new_CircuitBreaker options) (calls @ [OnFailure t error])"
  shows "state cb = OPEN \<and> lastFailureTime cb = Some t
     \<and> (\<forall>now. now - t < recoveryTimeout cb \<longrightarrow> canExecute now cb = (False, cb))
     \<and> (\<forall>now. recoveryTimeout cb \<le> now - t \<longrightarrow>
            fst (canExecute now cb)
          \<and> state (snd (canExecute now cb)) = HALF_OPEN
          \<and> state (onSuccess (snd (canExecute now cb))) = CLOSED
          \<and> failureCount (onSuccess (snd (canExecute now cb))) = 0
          \<and> failures (onSuccess (snd (canExecute now cb))) = [])"
proof -
  let ?cb0 = "new_CircuitBreaker options"
  let ?mid = "breaker_run ?cb0 calls"
  have cb: "cb = onFailure t error ?mid"
    unfolding assms(3) by (simp add: breaker_run_snoc)
  have "failureCount ?cb0 = 0" by (simp add: new_CircuitBreaker_def)
  with breaker_run_count [OF assms(1), of ?cb0] assms(2)
  have count: "failureCount ?mid + 1 = failureThreshold ?cb0" by simp
  have thr: "failureThreshold ?mid = failureThreshold ?cb0"
    using breaker_run_config [of ?cb0 calls] by simp
  have st: "state cb = OPEN"
    unfolding cb using count thr by (simp add: onFailure_state)
  have lf: "lastFailureTime cb = Some t"
    unfolding cb by (simp add: onFailure_fields)
  show ?thesis
    using st lf by (simp add: canExecute_def onSuccess_def)
qed

theorem breaker_opens_then_recovers_witness:
  "list_all keepsCount [CanExecute 0, OnFailure 5 timeoutError, CanExecute 10]
   \<and> int (length (filter isOnFailure [CanExecute 0, OnFailure 5 timeoutError, CanExecute 10])) + 1
       = failureThreshold (new_CircuitBreaker two_failures_options)
   \<and> state (breaker_run (new_CircuitBreaker two_failures_options)
        [CanExecute 0, OnFailure 5 timeoutError, CanExecute 10, OnFailure 20 timeoutError]) = OPEN
   \<and> fst (canExecute 1019 (breaker_run (new_CircuitBreaker two_failures_options)
        [CanExecute 0, OnFailure 5 timeoutError, CanExecute 10, OnFailure 20 timeoutError])) = False
   \<and> fst (canExecute 1020 (breaker_run (new_CircuitBreaker two_failures_options)
        [CanExecute 0, OnFailure 5 timeoutError, CanExecute 10, OnFailure 20 timeoutError])) = True
   \<and> state (snd (canExecute 1020 (breaker_run (new_CircuitBreaker two_failures_options)
        [CanExecute 0, OnFailure 5 timeoutError, CanExecute 10, OnFailure 20 timeoutError])))
       = HALF_OPEN"
proof -
  have thr: "failureThreshold (new_CircuitBreaker two_failures_options) = 2"
    "recoveryTimeout (new_CircuitBreaker two_failures_options) = 1000"
    by (simp_all add: new_CircuitBreaker_def two_failures_options_def orDefault_def)
  have rt: "recoveryTimeout (breaker_run (new_CircuitBreaker two_failures_options)
        [CanExecute 0, OnFailure 5 timeoutError, CanExecute 10, OnFailure 20 timeoutError]) = 1000"
    using breaker_run_config thr by simp
  have pre: "list_all keepsCount [CanExecute 0, OnFailure 5 timeoutError, CanExecute 10]"
    by (simp add: keepsCount_def)
  have cnt: "int (length (filter isOnFailure
      [CanExecute 0, OnFailure 5 timeoutError, CanExecute 10])) + 1
       = failureThreshold (new_CircuitBreaker two_failures_options)"
    by (simp add: thr)
  show ?thesis
    using breaker_opens_then_recovers [OF pre cnt, of _ 20 timeoutError, OF refl] pre cnt rt
    by simp
qed

lemma breaker_inv_step: "breaker_inv cb \<Longrightarrow> breaker_inv (breaker_step cb c)"
  by (cases c)
     (auto simp: breaker_inv_def canExecute_def onSuccess_def resetCircuitBreaker_def
        onFailure_state onFailure_fields split: breaker_state.splits)

lemma breaker_inv_run: "breaker_inv cb \<Longrightarrow> breaker_inv (breaker_run cb calls)"
  unfolding breaker_run_def
  by (induction calls arbitrary: cb) (simp_all add: breaker_inv_step)

lemma breaker_inv_new: "breaker_inv (new_CircuitBreaker options)"
  by (simp add: breaker_inv_def new_CircuitBreaker_def)

text \<open>
  Claim C10. Whatever calls were made on a breaker since its construction (resets
  included), if they leave it HALF_OPEN then its failure count has reached the threshold,
  and a single \<^verbatim>\<open>onFailure\<close> puts it back to OPEN at once.
\<close>

theorem half_open_failure_reopens:
  assumes "state (breaker_run (new_CircuitBreaker options) calls) = HALF_OPEN"
  shows "failureThreshold (breaker_run (new_CircuitBreaker options) calls)
           \<le> failureCount (breaker_run (new_CircuitBreaker options) calls)
         \<and> state (onFailure now error (breaker_run (new_CircuitBreaker options) calls)) = OPEN"
proof -
  have "breaker_inv (breaker_run (new_CircuitBreaker options) calls)"
    by (rule breaker_inv_run [OF breaker_inv_new])
  with assms show ?thesis
    by (simp add: breaker_inv_def onFailure_state)
qed

lemma half_open_example:
  "state (breaker_run (new_CircuitBreaker two_failures_options)
      [OnFailure 5 timeoutError, OnFailure 20 timeoutError, CanExecute 1020]) = HALF_OPEN"
  by (simp add: breaker_run_def new_CircuitBreaker_def two_failures_options_def orDefault_def
      canExecute_def onFailure_def Let_def)

theorem half_open_failure_reopens_witness:
  "state (breaker_run (new_CircuitBreaker two_failures_options)
      [OnFailure 5 timeoutError, OnFailure 20 timeoutError, CanExecute 1020]) = HALF_OPEN
   \<and> state (onFailure 1030 timeoutError
        (breaker_run (new_CircuitBreaker two_failures_options)
          [OnFailure 5 timeoutError, OnFailure 20 timeoutError, CanExecute 1020])) = OPEN"
  using half_open_failure_reopens [OF half_open_example, of 1030 timeoutError] half_open_example
  by simp

section \<open>Properties of the retry executor\<close>

declare retryLoop.simps [simp del]

lemma handleError_object [simp]:
  "handleError js (ErrorObject e)
     = Some \<lparr>errorType = classifyObject js e,
             analysis_isRetryable = isRetryable (classifyObject js e)\<rparr>"
  by (simp add: handleError_def classifyError_def)

lemma handleError_unclassifiable [simp]: "handleError js Unclassifiable = None"
  by (simp add: handleError_def classifyError_def)

lemma classify_timeoutError: "classifyObject js timeoutError = TIMEOUT"
proof -
  have "lowered_message timeoutError = ''timeout of 30000ms exceeded''"
    by code_simp
  moreover have "\<not> str_includes ''timeout of 30000ms exceeded'' ''network''"
    and "\<not> str_includes ''timeout of 30000ms exceeded'' ''connection''"
    by code_simp+
  ultimately show ?thesis
    by (simp add: classifyObject_def Let_def) (simp add: timeoutError_def)
qed

lemma retryable_timeoutError: "isRetryable (classifyObject js timeoutError)"
  by (simp add: classify_timeoutError isRetryable_def retryableTypes_def)

lemma always_timeout_fails: "alwaysFailsRetryable js always_timeout"
  by (simp add: alwaysFailsRetryable_def retryableRejection_def classifyError_def
      always_timeout_def retryable_timeoutError)

lemma default_manager_fields:
  "maxRetries (retryConfig default_manager) = 5"
  "failureThreshold (circuitBreaker default_manager) = 3"
  "recoveryTimeout (circuitBreaker default_manager) = 120000"
  "state (circuitBreaker default_manager) = CLOSED"
  "failureCount (circuitBreaker default_manager) = 0"
  by (simp_all add: default_manager_def new_TransactionRetryManager_def new_RetryManager_def
      new_RetryConfig_def new_CircuitBreaker_def orDefault_def no_retry_options_def
      no_breaker_options_def)

lemma alwaysFailsRetryableD:
  assumes "alwaysFailsRetryable js operation"
  obtains e w1 where "operation w = (Inl (ErrorObject e), w1)"
    "isRetryable (classifyObject js e)"
proof -
  from assms have "retryableRejection js (fst (operation w))"
    unfolding alwaysFailsRetryable_def by blast
  then show thesis
    using that
    by (cases "operation w")
       (auto simp: retryableRejection_def classifyError_def split: sum.splits caught.splits)
qed

lemma retryLoop_last_attempt:
  assumes "operation w = (Inl (ErrorObject e), w1)"
  shows "retryLoop rt cfg operation (maxRetries cfg) le cb w =
           \<lparr>outcome = Inl (ThrownError e), breaker_after = onFailure (dateNow rt w1) e cb,
            world_after = w1, invocations = [Inl (ErrorObject e)]\<rparr>"
  using assms by (subst retryLoop.simps) (simp add: Let_def)

lemma retryLoop_retry:
  assumes "operation w = (Inl (ErrorObject e), w1)"
    "isRetryable (classifyObject (engine rt) e)" "attempt < maxRetries cfg"
  shows "retryLoop rt cfg operation attempt le cb w =
           invoked (Inl (ErrorObject e))
             (retryLoop rt cfg operation (attempt + 1) (Some e) (onFailure (dateNow rt w1) e cb)
                (after_retry rt cfg operation attempt w))"
  using assms
  by (subst retryLoop.simps) (simp add: Let_def after_retry_def split: prod.splits)


lemma retryLoop_unclassifiable:
  assumes "operation w = (Inl Unclassifiable, w1)" "attempt \<le> maxRetries cfg"
  shows "retryLoop rt cfg operation attempt le cb w =
           \<lparr>outcome = Inl ThrownTypeError, breaker_after = cb, world_after = w1,
            invocations = [Inl Unclassifiable]\<rparr>"
  using assms by (subst retryLoop.simps) simp

lemma retryLoop_success:
  assumes "operation w = (Inr x, w1)" "attempt \<le> maxRetries cfg"
  shows "retryLoop rt cfg operation attempt le cb w =
           \<lparr>outcome = Inr x, breaker_after = onSuccess cb, world_after = w1,
            invocations = [Inr x]\<rparr>"
  using assms by (subst retryLoop.simps) simp

lemma invoked_simps:
  "outcome (invoked x r) = outcome r"
  "breaker_after (invoked x r) = breaker_after r"
  "world_after (invoked x r) = world_after r"
  "invocations (invoked x r) = x # invocations r"
  by (simp_all add: invoked_def)

lemma retryLoop_exhaust:
  assumes op: "alwaysFailsRetryable (engine rt) operation"
  shows "attempt \<le> maxRetries cfg \<Longrightarrow>
     int (length (invocations (retryLoop rt cfg operation attempt le cb w)))
        = maxRetries cfg - attempt + 1
     \<and> (\<exists>e. last (invocations (retryLoop rt cfg operation attempt le cb w))
              = Inl (ErrorObject e)
            \<and> outcome (retryLoop rt cfg operation attempt le cb w) = Inl (ThrownError e))
     \<and> failureCount (breaker_after (retryLoop rt cfg operation attempt le cb w))
        = failureCount cb + (maxRetries cfg - attempt + 1)
     \<and> state (breaker_after (retryLoop rt cfg operation attempt le cb w))
        = (if failureThreshold cb \<le> failureCount cb + (maxRetries cfg - attempt + 1)
           then OPEN else state cb)
     \<and> lastFailureTime (breaker_after (retryLoop rt cfg operation attempt le cb w))
        = Some (dateNow rt (world_after (retryLoop rt cfg operation attempt le cb w)))
     \<and> failureThreshold (breaker_after (retryLoop rt cfg operation attempt le cb w))
        = failureThreshold cb
     \<and> recoveryTimeout (breaker_after (retryLoop rt cfg operation attempt le cb w))
        = recoveryTimeout cb"
proof (induction "nat (maxRetries cfg - attempt)" arbitrary: attempt le cb w)
  case 0
  then have eq: "attempt = maxRetries cfg" by simp
  obtain e w1 where "operation w = (Inl (ErrorObject e), w1)"
    using op by (rule alwaysFailsRetryableD)
  then show ?case
    unfolding eq by (simp add: retryLoop_last_attempt onFailure_fields onFailure_state)
next
  case (Suc n)
  then have lt: "attempt < maxRetries cfg" by simp
  obtain e w1 where e: "operation w = (Inl (ErrorObject e), w1)"
    "isRetryable (classifyObject (engine rt) e)"
    using op by (rule alwaysFailsRetryableD)
  define cb1 where "cb1 = onFailure (dateNow rt w1) e cb"
  define w3 where "w3 = after_retry rt cfg operation attempt w"
  have step: "retryLoop rt cfg operation attempt le cb w =
      invoked (Inl (ErrorObject e)) (retryLoop rt cfg operation (attempt + 1) (Some e) cb1 w3)"
    unfolding cb1_def w3_def using e lt by (rule retryLoop_retry)
  have n: "n = nat (maxRetries cfg - (attempt + 1))" using Suc.hyps(2) by simp
  have le1: "attempt + 1 \<le> maxRetries cfg" using lt by simp
  note IH = Suc.hyps(1) [OF n le1, of "Some e" cb1 w3]
  have ne: "invocations (retryLoop rt cfg operation (attempt + 1) (Some e) cb1 w3) \<noteq> []"
    using IH le1 by auto
  show ?case
    unfolding step using IH ne lt
    by (simp add: invoked_simps cb1_def onFailure_fields onFailure_state)
qed

text \<open>
  The same run, told by what the operation does: the \<open>k\<close>-th entry of the invocations is
  the answer of the operation in the world the \<open>k\<close>-th attempt starts in, and the run
  ends where the last of them leaves the world, with its error.
\<close>

lemma attempt_world_shift:
  "attempt_world rt cfg operation attempt w (Suc k)
     = attempt_world rt cfg operation (attempt + 1)
         (after_retry rt cfg operation attempt w) k"
proof (induction k)
  case 0
  show ?case by simp
next
  case (Suc k)
  have "attempt_world rt cfg operation attempt w (Suc (Suc k))
      = after_retry rt cfg operation (attempt + int (Suc k))
          (attempt_world rt cfg operation attempt w (Suc k))"
    by (rule attempt_world.simps(2))
  also have "\<dots> = after_retry rt cfg operation (attempt + 1 + int k)
          (attempt_world rt cfg operation (attempt + 1)
             (after_retry rt cfg operation attempt w) k)"
    unfolding Suc.IH by (simp add: add.assoc)
  also have "\<dots> = attempt_world rt cfg operation (attempt + 1)
         (after_retry rt cfg operation attempt w) (Suc k)"
    by simp
  finally show ?case .
qed

lemma map_upt_shift: "map f [0..<Suc n] = f 0 # map (\<lambda>k. f (Suc k)) [0..<n]"
  by (simp add: upt_conv_Cons map_Suc_upt [symmetric] del: upt_Suc)

lemma retryLoop_exhaust_trace:
  assumes op: "alwaysFailsRetryable (engine rt) operation"
  shows "attempt \<le> maxRetries cfg \<Longrightarrow>
     invocations (retryLoop rt cfg operation attempt le cb w)
        = map (\<lambda>k. fst (operation (attempt_world rt cfg operation attempt w k)))
            [0..<Suc (nat (maxRetries cfg - attempt))]
     \<and> (\<exists>e. fst (operation (attempt_world rt cfg operation attempt w
                  (nat (maxRetries cfg - attempt)))) = Inl (ErrorObject e)
            \<and> outcome (retryLoop rt cfg operation attempt le cb w) = Inl (ThrownError e))
     \<and> world_after (retryLoop rt cfg operation attempt le cb w)
        = snd (operation (attempt_world rt cfg operation attempt w
                 (nat (maxRetries cfg - attempt))))"
proof (induction "nat (maxRetries cfg - attempt)" arbitrary: attempt le cb w)
  case 0
  then have eq: "attempt = maxRetries cfg" by simp
  obtain e w1 where "operation w = (Inl (ErrorObject e), w1)"
    using op by (rule alwaysFailsRetryableD)
  then show ?case
    unfolding eq by (simp add: retryLoop_last_attempt)
next
  case (Suc n)
  then have lt: "attempt < maxRetries cfg" by simp
  obtain e w1 where e: "operation w = (Inl (ErrorObject e), w1)"
    "isRetryable (classifyObject (engine rt) e)"
    using op by (rule alwaysFailsRetryableD)
  define cb1 where "cb1 = onFailure (dateNow rt w1) e cb"
  define w3 where "w3 = after_retry rt cfg operation attempt w"
  have step: "retryLoop rt cfg operation attempt le cb w =
      invoked (Inl (ErrorObject e)) (retryLoop rt cfg operation (attempt + 1) (Some e) cb1 w3)"
    unfolding cb1_def w3_def using e lt by (rule retryLoop_retry)
  have n: "n = nat (maxRetries cfg - (attempt + 1))" using Suc.hyps(2) by simp
  have le1: "attempt + 1 \<le> maxRetries cfg" using lt by simp
  have m: "nat (maxRetries cfg - attempt) = Suc n" using Suc.hyps(2) by simp
  note IH = Suc.hyps(1) [OF n le1, of "Some e" cb1 w3, folded n]
  have shift: "\<And>k. attempt_world rt cfg operation attempt w (Suc k)
      = attempt_world rt cfg operation (attempt + 1) w3 k"
    unfolding w3_def by (rule attempt_world_shift)
  have first: "fst (operation (attempt_world rt cfg operation attempt w 0))
      = Inl (ErrorObject e)"
    using e(1) by simp
  show ?case
    unfolding step m using IH first
    by (simp add: invoked_simps map_upt_shift [of _ "Suc n"] shift
        del: upt_Suc attempt_world.simps(2))
qed

lemma executeWithRetry_refused:
  assumes "\<not> fst (canExecute (dateNow rt w) (circuitBreaker rm))"
  shows "executeWithRetry rt rm operation w =
           \<lparr>outcome = Inl (ThrownError circuitOpenError), breaker_after = circuitBreaker rm,
            world_after = w, invocations = []\<rparr>"
  using assms canExecute_refuses [OF assms]
  by (cases "canExecute (dateNow rt w) (circuitBreaker rm)") (auto simp: executeWithRetry_def)

lemma executeWithRetry_admitted:
  assumes "fst (canExecute (dateNow rt w) (circuitBreaker rm))"
  shows "executeWithRetry rt rm operation w =
           retryLoop rt (retryConfig rm) operation 1 None
             (snd (canExecute (dateNow rt w) (circuitBreaker rm))) w"
  using assms
  by (cases "canExecute (dateNow rt w) (circuitBreaker rm)") (auto simp: executeWithRetry_def)

lemma open_manager_refuses:
  "\<not> fst (canExecute (dateNow clock_runtime 50) (circuitBreaker open_manager))"
  by (simp add: open_manager_def canExecute_def clock_runtime_def default_manager_fields)

lemma default_manager_admits:
  "fst (canExecute (dateNow clock_runtime 0) (circuitBreaker default_manager))"
  by (simp add: canExecute_def default_manager_fields)

lemma clock_engine: "engine clock_runtime = scenario_engine"
  by (simp add: clock_runtime_def)

lemma first_call_breaker:
  "state (breaker_after first_call) = OPEN
   \<and> failureCount (breaker_after first_call) = 5
   \<and> lastFailureTime (breaker_after first_call) = Some (world_after first_call)
   \<and> recoveryTimeout (breaker_after first_call) = 120000
   \<and> length (invocations first_call) = 5"
proof -
  have m: "1 \<le> maxRetries (retryConfig default_manager)"
    by (simp add: default_manager_fields)
  have now: "dateNow clock_runtime = (\<lambda>w. w)"
    by (simp add: clock_runtime_def)
  have "int (length (invocations first_call)) = 5
      \<and> failureCount (breaker_after first_call) = 5
      \<and> state (breaker_after first_call) = OPEN
      \<and> lastFailureTime (breaker_after first_call) = Some (world_after first_call)
      \<and> recoveryTimeout (breaker_after first_call) = 120000"
    using retryLoop_exhaust [OF always_timeout_fails m, of clock_runtime None
        "snd (canExecute (dateNow clock_runtime 0) (circuitBreaker default_manager))" 0,
        folded executeWithRetry_admitted [OF default_manager_admits]]
    by (simp add: default_manager_fields canExecute_keeps first_call_def now)
  then show ?thesis by simp
qed

lemma tripped_manager_refuses:
  "\<not> fst (canExecute (dateNow clock_runtime second_call_time)
            (circuitBreaker tripped_manager))"
  using first_call_breaker
  by (simp add: tripped_manager_def second_call_time_def canExecute_def clock_runtime_def)

text \<open>
  Claim C5, as the code has it. Let the operation fail at every invocation with an error
  of a retryable kind and let \<^verbatim>\<open>maxRetries\<close> be \<open>m \<ge> 1\<close>. If the breaker admits the call at
  entry, the operation is invoked exactly \<open>m\<close> times, each time in the world the
  previous attempt, the random draw and the sleep have left; what \<^verbatim>\<open>executeWithRetry\<close>
  throws is the very error object of the \<open>m\<close>-th invocation, and the world is left as that
  invocation leaves it. If the breaker refuses the call at entry, the operation is not
  invoked and the circuit-open error is thrown instead.
\<close>

theorem executeWithRetry_exhaustion:
  assumes "alwaysFailsRetryable (engine rt) operation"
    and "1 \<le> maxRetries (retryConfig rm)"
  shows "(fst (canExecute (dateNow rt w) (circuitBreaker rm)) \<longrightarrow>
            invocations (executeWithRetry rt rm operation w)
              = map (\<lambda>k. fst (operation (attempt_world rt (retryConfig rm) operation 1 w k)))
                  [0..<nat (maxRetries (retryConfig rm))]
          \<and> (\<exists>e. fst (operation (attempt_world rt (retryConfig rm) operation 1 w
                        (nat (maxRetries (retryConfig rm)) - 1))) = Inl (ErrorObject e)
                \<and> outcome (executeWithRetry rt rm operation w) = Inl (ThrownError e))
          \<and> world_after (executeWithRetry rt rm operation w)
              = snd (operation (attempt_world rt (retryConfig rm) operation 1 w
                       (nat (maxRetries (retryConfig rm)) - 1))))
       \<and> (\<not> fst (canExecute (dateNow rt w) (circuitBreaker rm)) \<longrightarrow>
            invocations (executeWithRetry rt rm operation w) = []
          \<and> outcome (executeWithRetry rt rm operation w) = Inl (ThrownError circuitOpenError)
          \<and> world_after (executeWithRetry rt rm operation w) = w)"
proof (intro conjI impI)
  assume gate: "fst (canExecute (dateNow rt w) (circuitBreaker rm))"
  let ?m = "maxRetries (retryConfig rm)"
  have suc: "Suc (nat (?m - 1)) = nat ?m"
    using assms(2) by simp
  have pred: "nat (?m - 1) = nat ?m - 1"
    by simp
  note ex = retryLoop_exhaust_trace [OF assms(1), of 1 "retryConfig rm" None
      "snd (canExecute (dateNow rt w) (circuitBreaker rm))" w, OF assms(2),
      folded executeWithRetry_admitted [OF gate], unfolded suc, unfolded pred]
  from ex show "invocations (executeWithRetry rt rm operation w)
      = map (\<lambda>k. fst (operation (attempt_world rt (retryConfig rm) operation 1 w k)))
          [0..<nat ?m]"
    by blast
  from ex show "\<exists>e. fst (operation (attempt_world rt (retryConfig rm) operation 1 w
                        (nat ?m - 1))) = Inl (ErrorObject e)
                \<and> outcome (executeWithRetry rt rm operation w) = Inl (ThrownError e)"
    by blast
  from ex show "world_after (executeWithRetry rt rm operation w)
      = snd (operation (attempt_world rt (retryConfig rm) operation 1 w (nat ?m - 1)))"
    by blast
next
  assume "\<not> fst (canExecute (dateNow rt w) (circuitBreaker rm))"
  then have r: "executeWithRetry rt rm operation w =
           \<lparr>outcome = Inl (ThrownError circuitOpenError), breaker_after = circuitBreaker rm,
            world_after = w, invocations = []\<rparr>"
    by (rule executeWithRetry_refused)
  show "invocations (executeWithRetry rt rm operation w) = []"
    and "outcome (executeWithRetry rt rm operation w) = Inl (ThrownError circuitOpenError)"
    and "world_after (executeWithRetry rt rm operation w) = w"
    unfolding r by simp_all
qed

lemma classify_timeoutAt: "classifyObject js (timeoutAt w) = TIMEOUT"
proof -
  have "lowered_message (timeoutAt w)
      = (if w < 30000 then ''timeout'' else ''timeout after 30 seconds'')"
    by (simp add: timeoutAt_def lowered_message_def) code_simp
  moreover have "\<not> str_includes ''timeout'' ''network''"
    and "\<not> str_includes ''timeout'' ''connection''"
    and "\<not> str_includes ''timeout after 30 seconds'' ''network''"
    and "\<not> str_includes ''timeout after 30 seconds'' ''connection''"
    by code_simp+
  ultimately show ?thesis
    by (simp add: classifyObject_def Let_def) (simp add: timeoutAt_def)
qed

lemma dated_timeout_fails: "alwaysFailsRetryable js dated_timeout"
  by (simp add: alwaysFailsRetryable_def retryableRejection_def classifyError_def
      dated_timeout_def classify_timeoutAt isRetryable_def retryableTypes_def)

lemma clock_attempt_worlds:
  "attempt_world clock_runtime (retryConfig default_manager) dated_timeout 1 0 (Suc 0) = 2210"
  "attempt_world clock_runtime (retryConfig default_manager) dated_timeout 1 0 (Suc (Suc 0))
     = 6620"
  "attempt_world clock_runtime (retryConfig default_manager) dated_timeout 1 0
     (Suc (Suc (Suc 0))) = 15430"
  "attempt_world clock_runtime (retryConfig default_manager) dated_timeout 1 0
     (Suc (Suc (Suc (Suc 0)))) = 33040"
  by (simp_all add: after_retry_def clock_runtime_def dated_timeout_def calculateDelay_def
      scenario_engine_def default_manager_def new_TransactionRetryManager_def
      new_RetryManager_def new_RetryConfig_def orDefault_def no_retry_options_def
      double_0_2_def Let_def power_int_def)

theorem executeWithRetry_exhaustion_witness:
  "alwaysFailsRetryable (engine clock_runtime) dated_timeout
   \<and> 1 \<le> maxRetries (retryConfig default_manager)
   \<and> fst (canExecute (dateNow clock_runtime 0) (circuitBreaker default_manager))
   \<and> invocations (executeWithRetry clock_runtime default_manager dated_timeout 0)
       = [Inl (ErrorObject (timeoutAt 0)), Inl (ErrorObject (timeoutAt 2210)),
          Inl (ErrorObject (timeoutAt 6620)), Inl (ErrorObject (timeoutAt 15430)),
          Inl (ErrorObject (timeoutAt 33040))]
   \<and> outcome (executeWithRetry clock_runtime default_manager dated_timeout 0)
       = Inl (ThrownError (timeoutAt 33040))
   \<and> timeoutAt 33040 \<noteq> timeoutAt 0
   \<and> world_after (executeWithRetry clock_runtime default_manager dated_timeout 0) = 33050
   \<and> \<not> fst (canExecute (dateNow clock_runtime second_call_time)
              (circuitBreaker tripped_manager))
   \<and> 1 \<le> maxRetries (retryConfig tripped_manager)
   \<and> invocations (executeWithRetry clock_runtime tripped_manager dated_timeout
         second_call_time) = []
   \<and> outcome (executeWithRetry clock_runtime tripped_manager dated_timeout second_call_time)
       = Inl (ThrownError circuitOpenError)"
proof -
  have m: "1 \<le> maxRetries (retryConfig default_manager)"
    by (simp add: default_manager_fields)
  have m2: "1 \<le> maxRetries (retryConfig tripped_manager)"
    by (simp add: tripped_manager_def default_manager_fields)
  have five: "[0..<nat 5] = [0, Suc 0, Suc (Suc 0), Suc (Suc (Suc 0)), Suc (Suc (Suc (Suc 0)))]"
    by (simp add: upt_conv_Cons)
  have four: "nat 5 - 1 = Suc (Suc (Suc (Suc 0)))"
    by simp
  have differ: "timeoutAt 33040 \<noteq> timeoutAt 0"
    by (simp add: timeoutAt_def)
  from executeWithRetry_exhaustion [of clock_runtime dated_timeout default_manager 0]
    dated_timeout_fails m default_manager_admits
  have run: "invocations (executeWithRetry clock_runtime default_manager dated_timeout 0)
       = [Inl (ErrorObject (timeoutAt 0)), Inl (ErrorObject (timeoutAt 2210)),
          Inl (ErrorObject (timeoutAt 6620)), Inl (ErrorObject (timeoutAt 15430)),
          Inl (ErrorObject (timeoutAt 33040))]
     \<and> outcome (executeWithRetry clock_runtime default_manager dated_timeout 0)
       = Inl (ThrownError (timeoutAt 33040))
     \<and> world_after (executeWithRetry clock_runtime default_manager dated_timeout 0) = 33050"
    unfolding default_manager_fields five four
    by (simp add: dated_timeout_def clock_attempt_worlds del: attempt_world.simps(2))
  from executeWithRetry_exhaustion
    [of clock_runtime dated_timeout tripped_manager second_call_time]
    dated_timeout_fails m2 tripped_manager_refuses
  have refused: "invocations (executeWithRetry clock_runtime tripped_manager dated_timeout
         second_call_time) = []
     \<and> outcome (executeWithRetry clock_runtime tripped_manager dated_timeout
         second_call_time) = Inl (ThrownError circuitOpenError)"
    by blast
  show ?thesis
    using run refused m m2 default_manager_admits tripped_manager_refuses dated_timeout_fails
      differ
    by blast
qed

text \<open>
  Against claim C5 as stated: the operation always fails with a timeout, which is
  retryable, and \<^verbatim>\<open>maxRetries\<close> is 5; the first call has opened the breaker, and the
  second call, a second later, does not invoke the operation at all and throws the
  circuit-open error, which no invocation produced.
\<close>

theorem executeWithRetry_exhaustion_counterexample:
  "alwaysFailsRetryable (engine clock_runtime) always_timeout
   \<and> maxRetries (retryConfig tripped_manager) = 5
   \<and> length (invocations first_call) = 5
   \<and> invocations (executeWithRetry clock_runtime tripped_manager always_timeout
         second_call_time) = []
   \<and> outcome (executeWithRetry clock_runtime tripped_manager always_timeout second_call_time)
       = Inl (ThrownError circuitOpenError)
   \<and> circuitOpenError \<noteq> timeoutError"
proof -
  have "executeWithRetry clock_runtime tripped_manager always_timeout second_call_time
      = \<lparr>outcome = Inl (ThrownError circuitOpenError),
         breaker_after = circuitBreaker tripped_manager,
         world_after = second_call_time, invocations = []\<rparr>"
    using tripped_manager_refuses by (rule executeWithRetry_refused)
  moreover have "maxRetries (retryConfig tripped_manager) = 5"
    by (simp add: tripped_manager_def default_manager_fields)
  moreover have "circuitOpenError \<noteq> timeoutError"
    by (simp add: circuitOpenError_def timeoutError_def)
  ultimately show ?thesis
    using always_timeout_fails first_call_breaker by simp
qed

text \<open>
  Claim C1, as the code has it. \<^verbatim>\<open>canExecute\<close> is consulted once per call of
  \<^verbatim>\<open>executeWithRetry\<close>, before the first attempt. When it answers false, the call throws the
  circuit-open error, the operation is not invoked, and breaker and world stay as they
  were. When it answers true, the attempts that follow are not gated: an operation that
  always fails with a retryable error is invoked \<^verbatim>\<open>maxRetries\<close> times, whatever the
  threshold. If these failures reach the threshold, the run leaves the breaker OPEN, and
  a next call of \<^verbatim>\<open>executeWithRetry\<close> made before \<^verbatim>\<open>recoveryTimeout\<close> has passed since the
  end of the run is refused without an invocation.
\<close>

theorem executeWithRetry_gate_at_entry:
  "(\<not> fst (canExecute (dateNow rt w) (circuitBreaker rm)) \<longrightarrow>
      executeWithRetry rt rm operation w =
        \<lparr>outcome = Inl (ThrownError circuitOpenError), breaker_after = circuitBreaker rm,
         world_after = w, invocations = []\<rparr>)
   \<and> (fst (canExecute (dateNow rt w) (circuitBreaker rm)) \<and> alwaysFailsRetryable (engine rt) operation
        \<and> 1 \<le> maxRetries (retryConfig rm) \<longrightarrow>
      length (invocations (executeWithRetry rt rm operation w)) = nat (maxRetries (retryConfig rm))
      \<and> (failureThreshold (circuitBreaker rm)
            \<le> failureCount (circuitBreaker rm) + maxRetries (retryConfig rm) \<longrightarrow>
          state (breaker_after (executeWithRetry rt rm operation w)) = OPEN
          \<and> (\<forall>next_operation w'.
                dateNow rt w' - dateNow rt (world_after (executeWithRetry rt rm operation w))
                  < recoveryTimeout (circuitBreaker rm) \<longrightarrow>
                invocations (executeWithRetry rt
                    (rm\<lparr>circuitBreaker := breaker_after (executeWithRetry rt rm operation w)\<rparr>)
                    next_operation w') = []
                \<and> outcome (executeWithRetry rt
                    (rm\<lparr>circuitBreaker := breaker_after (executeWithRetry rt rm operation w)\<rparr>)
                    next_operation w') = Inl (ThrownError circuitOpenError))))"
proof (intro conjI impI)
  assume "\<not> fst (canExecute (dateNow rt w) (circuitBreaker rm))"
  then show "executeWithRetry rt rm operation w =
        \<lparr>outcome = Inl (ThrownError circuitOpenError), breaker_after = circuitBreaker rm,
         world_after = w, invocations = []\<rparr>"
    by (rule executeWithRetry_refused)
next
  assume a: "fst (canExecute (dateNow rt w) (circuitBreaker rm)) \<and> alwaysFailsRetryable (engine rt) operation
        \<and> 1 \<le> maxRetries (retryConfig rm)"
  let ?r = "executeWithRetry rt rm operation w"
  let ?cb = "snd (canExecute (dateNow rt w) (circuitBreaker rm))"
  from a have gate: "fst (canExecute (dateNow rt w) (circuitBreaker rm))"
    and op: "alwaysFailsRetryable (engine rt) operation" and m: "1 \<le> maxRetries (retryConfig rm)"
    by simp_all
  note ex = retryLoop_exhaust [OF op m, of None ?cb w,
      folded executeWithRetry_admitted [OF gate], unfolded canExecute_keeps]
  from ex have "int (length (invocations ?r)) = maxRetries (retryConfig rm)" by simp
  then show "length (invocations ?r) = nat (maxRetries (retryConfig rm))" by linarith
  assume thr: "failureThreshold (circuitBreaker rm)
      \<le> failureCount (circuitBreaker rm) + maxRetries (retryConfig rm)"
  with ex show st: "state (breaker_after ?r) = OPEN" by simp
  show "\<forall>next_operation w'.
          dateNow rt w' - dateNow rt (world_after ?r) < recoveryTimeout (circuitBreaker rm) \<longrightarrow>
          invocations (executeWithRetry rt (rm\<lparr>circuitBreaker := breaker_after ?r\<rparr>)
              next_operation w') = []
          \<and> outcome (executeWithRetry rt (rm\<lparr>circuitBreaker := breaker_after ?r\<rparr>)
              next_operation w') = Inl (ThrownError circuitOpenError)"
  proof -
    from ex have lf: "lastFailureTime (breaker_after ?r) = Some (dateNow rt (world_after ?r))"
      and rcv: "recoveryTimeout (breaker_after ?r) = recoveryTimeout (circuitBreaker rm)"
      by simp_all
    show ?thesis
      using st lf rcv by (simp add: executeWithRetry_refused canExecute_def)
  qed
qed

theorem executeWithRetry_gate_at_entry_witness:
  "\<not> fst (canExecute (dateNow clock_runtime 50) (circuitBreaker open_manager))
   \<and> invocations (executeWithRetry clock_runtime open_manager always_timeout 50) = []
   \<and> outcome (executeWithRetry clock_runtime open_manager always_timeout 50)
       = Inl (ThrownError circuitOpenError)
   \<and> fst (canExecute (dateNow clock_runtime 0) (circuitBreaker default_manager))
   \<and> alwaysFailsRetryable (engine clock_runtime) always_timeout
   \<and> 1 \<le> maxRetries (retryConfig default_manager)
   \<and> failureThreshold (circuitBreaker default_manager)
        \<le> failureCount (circuitBreaker default_manager) + maxRetries (retryConfig default_manager)
   \<and> length (invocations (executeWithRetry clock_runtime default_manager always_timeout 0)) = 5
   \<and> state (breaker_after (executeWithRetry clock_runtime default_manager always_timeout 0)) = OPEN
   \<and> invocations (executeWithRetry clock_runtime
          (default_manager\<lparr>circuitBreaker :=
             breaker_after (executeWithRetry clock_runtime default_manager always_timeout 0)\<rparr>)
          always_timeout
          (world_after (executeWithRetry clock_runtime default_manager always_timeout 0) + 100))
        = []"
proof -
  let ?r = "executeWithRetry clock_runtime default_manager always_timeout 0"
  have now: "dateNow clock_runtime = (\<lambda>w. w)"
    by (simp add: clock_runtime_def)
  have thr: "failureThreshold (circuitBreaker default_manager)
      \<le> failureCount (circuitBreaker default_manager) + maxRetries (retryConfig default_manager)"
    and m: "1 \<le> maxRetries (retryConfig default_manager)"
    by (simp_all add: default_manager_fields)
  from executeWithRetry_gate_at_entry [of clock_runtime 50 open_manager always_timeout]
    open_manager_refuses
  have refused: "invocations (executeWithRetry clock_runtime open_manager always_timeout 50) = []
     \<and> outcome (executeWithRetry clock_runtime open_manager always_timeout 50)
         = Inl (ThrownError circuitOpenError)"
    by simp
  from executeWithRetry_gate_at_entry [of clock_runtime 0 default_manager always_timeout]
    default_manager_admits always_timeout_fails m thr
  have run: "length (invocations ?r) = nat (maxRetries (retryConfig default_manager))"
    and st: "state (breaker_after ?r) = OPEN"
    and later: "\<forall>next_operation w'.
        dateNow clock_runtime w' - dateNow clock_runtime (world_after ?r)
          < recoveryTimeout (circuitBreaker default_manager) \<longrightarrow>
        invocations (executeWithRetry clock_runtime
            (default_manager\<lparr>circuitBreaker := breaker_after ?r\<rparr>) next_operation w') = []
        \<and> outcome (executeWithRetry clock_runtime
            (default_manager\<lparr>circuitBreaker := breaker_after ?r\<rparr>) next_operation w')
            = Inl (ThrownError circuitOpenError)"
    by blast+
  from later [rule_format, of "world_after ?r + 100" always_timeout]
  have next_call: "invocations (executeWithRetry clock_runtime
      (default_manager\<lparr>circuitBreaker := breaker_after ?r\<rparr>) always_timeout
      (world_after ?r + 100)) = []"
    by (simp add: now default_manager_fields)
  show ?thesis
    using refused run st next_call open_manager_refuses default_manager_admits
      always_timeout_fails
    by (simp add: default_manager_fields)
qed

text \<open>
  Against claim C1 as stated: the manager with the defaults of the transaction retry
  manager has threshold 3 and 5 attempts; run on an operation that always times out, it
  invokes the operation five times and ends with five failures counted, so attempts 4
  and 5 are made although the breaker opened at the third failure.
\<close>

theorem executeWithRetry_gate_counterexample:
  "failureThreshold (circuitBreaker default_manager) = 3
   \<and> maxRetries (retryConfig default_manager) = 5
   \<and> length (invocations (executeWithRetry clock_runtime default_manager always_timeout 0)) = 5
   \<and> failureCount
        (breaker_after (executeWithRetry clock_runtime default_manager always_timeout 0)) = 5
   \<and> state (breaker_after (executeWithRetry clock_runtime default_manager always_timeout 0))
        = OPEN"
proof -
  have m: "1 \<le> maxRetries (retryConfig default_manager)"
    by (simp add: default_manager_fields)
  have "int (length (invocations (executeWithRetry clock_runtime default_manager always_timeout 0)))
          = 5
      \<and> failureCount
          (breaker_after (executeWithRetry clock_runtime default_manager always_timeout 0)) = 5
      \<and> state (breaker_after (executeWithRetry clock_runtime default_manager always_timeout 0))
          = OPEN"
    using retryLoop_exhaust [OF always_timeout_fails m, of clock_runtime None
        "snd (canExecute (dateNow clock_runtime 0) (circuitBreaker default_manager))" 0,
        folded executeWithRetry_admitted [OF default_manager_admits]]
    by (simp add: default_manager_fields canExecute_keeps)
  then show ?thesis
    by (simp add: default_manager_fields)
qed

section \<open>Properties of the classifier\<close>

lemma classifyObject_first_match:
  "classifyObject js e = first_match (classification_rules js) (code e) (lowered_message e)"
  by (simp add: classifyObject_def classification_rules_def rule_matches_def Let_def)

lemma first_match_split:
  "\<not> list_ex (rule_matches c msg) pre \<Longrightarrow> rule_matches c msg r \<Longrightarrow>
   first_match (pre @ r # post) c msg = rule_kind r"
  by (induction pre) simp_all

lemma first_match_none:
  "\<not> list_ex (rule_matches c msg) rs \<Longrightarrow> first_match rs c msg = UNKNOWN_ERROR"
  by (induction rs) simp_all

text \<open>
  Claim C4, as the code has it. On a value that is no error object \<open>classifyError\<close> has
  no answer: it throws. On an error object it is the first-match evaluation of the rule
  table: the categories are tried in the order network, timeout, rate-limited, server,
  gas-estimation, insufficient-funds, reverted, nonce-too-low, gas-price-too-low,
  contract, validation; a category matches when its code test or one of its substrings
  holds; the first category that matches is the answer wherever it stands in the table,
  and an error object that no category matches is \<open>UNKNOWN_ERROR\<close>. The code test of a
  category comes before the substrings of that category only, not before those of the
  categories above it.
\<close>

theorem classifyError_priority_order:
  "classifyError js Unclassifiable = None
   \<and> classifyError js (ErrorObject e)
       = Some (first_match (classification_rules js) (code e) (lowered_message e))
   \<and> map rule_kind (classification_rules js)
       = [NETWORK_ERROR, TIMEOUT, RATE_LIMITED, SERVER_ERROR, GAS_ESTIMATION_FAILED,
          INSUFFICIENT_FUNDS, TRANSACTION_REVERTED, NONCE_TOO_LOW, GAS_PRICE_TOO_LOW,
          CONTRACT_ERROR, VALIDATION_ERROR]
   \<and> (\<forall>pre r post.
         classification_rules js = pre @ r # post
         \<and> \<not> list_ex (rule_matches (code e) (lowered_message e)) pre
         \<and> rule_matches (code e) (lowered_message e) r
         \<longrightarrow> classifyError js (ErrorObject e) = Some (rule_kind r))
   \<and> (\<not> list_ex (rule_matches (code e) (lowered_message e)) (classification_rules js)
         \<longrightarrow> classifyError js (ErrorObject e) = Some UNKNOWN_ERROR)"
proof (intro conjI allI impI)
  show "classifyError js Unclassifiable = None"
    by (simp add: classifyError_def)
  show "classifyError js (ErrorObject e)
      = Some (first_match (classification_rules js) (code e) (lowered_message e))"
    by (simp add: classifyError_def classifyObject_first_match)
  show "map rule_kind (classification_rules js)
       = [NETWORK_ERROR, TIMEOUT, RATE_LIMITED, SERVER_ERROR, GAS_ESTIMATION_FAILED,
          INSUFFICIENT_FUNDS, TRANSACTION_REVERTED, NONCE_TOO_LOW, GAS_PRICE_TOO_LOW,
          CONTRACT_ERROR, VALIDATION_ERROR]"
    by (simp add: classification_rules_def)
next
  fix pre r post
  assume "classification_rules js = pre @ r # post
         \<and> \<not> list_ex (rule_matches (code e) (lowered_message e)) pre
         \<and> rule_matches (code e) (lowered_message e) r"
  then have "classifyObject js e = rule_kind r"
    by (metis classifyObject_first_match first_match_split)
  then show "classifyError js (ErrorObject e) = Some (rule_kind r)"
    by (simp add: classifyError_def)
next
  assume "\<not> list_ex (rule_matches (code e) (lowered_message e)) (classification_rules js)"
  then show "classifyError js (ErrorObject e) = Some UNKNOWN_ERROR"
    by (simp add: classifyError_def classifyObject_first_match first_match_none)
qed

lemma lowered_examples:
  "lowered_message timeout_code_only = ''request aborted''"
  "lowered_message timeout_code_network_message = ''network request failed''"
  "lowered_message unmatched_error = ''something odd''"
  "lowered_message status_503_code = ''service unavailable''"
  by code_simp+

lemma scenario_engine_503:
  "code_ge_500 scenario_engine (StrCode ''503'')"
  "\<not> code_ge_500 scenario_engine (StrCode ''TIMEOUT'')"
  by code_simp+

lemma rules_split_second:
  "classification_rules js = [hd (classification_rules js)]
     @ hd (tl (classification_rules js)) # tl (tl (classification_rules js))"
  by (simp add: classification_rules_def)

lemma rules_split_fourth:
  "classification_rules js = take 3 (classification_rules js)
     @ classification_rules js ! 3 # drop 4 (classification_rules js)"
  by (simp add: classification_rules_def)

theorem classifyError_priority_order_witness:
  "classifyError scenario_engine Unclassifiable = None
   \<and> classification_rules scenario_engine = [hd (classification_rules scenario_engine)]
       @ hd (tl (classification_rules scenario_engine))
       # tl (tl (classification_rules scenario_engine))
   \<and> \<not> list_ex (rule_matches (code timeout_code_only) (lowered_message timeout_code_only))
         [hd (classification_rules scenario_engine)]
   \<and> rule_matches (code timeout_code_only) (lowered_message timeout_code_only)
         (hd (tl (classification_rules scenario_engine)))
   \<and> classifyError scenario_engine (ErrorObject timeout_code_only) = Some TIMEOUT
   \<and> classification_rules scenario_engine = take 3 (classification_rules scenario_engine)
       @ classification_rules scenario_engine ! 3 # drop 4 (classification_rules scenario_engine)
   \<and> \<not> list_ex (rule_matches (code status_503_code) (lowered_message status_503_code))
         (take 3 (classification_rules scenario_engine))
   \<and> rule_matches (code status_503_code) (lowered_message status_503_code)
         (classification_rules scenario_engine ! 3)
   \<and> classifyError scenario_engine (ErrorObject status_503_code) = Some SERVER_ERROR
   \<and> \<not> list_ex (rule_matches (code unmatched_error) (lowered_message unmatched_error))
         (classification_rules scenario_engine)
   \<and> classifyError scenario_engine (ErrorObject unmatched_error) = Some UNKNOWN_ERROR"
proof -
  let ?rules = "classification_rules scenario_engine"
  have pre: "\<not> list_ex (rule_matches (code timeout_code_only) (lowered_message timeout_code_only))
         [hd ?rules]"
    by (simp add: classification_rules_def rule_matches_def lowered_examples)
       (simp add: timeout_code_only_def)
  have hit: "rule_matches (code timeout_code_only) (lowered_message timeout_code_only)
         (hd (tl ?rules))"
    by (simp add: classification_rules_def rule_matches_def timeout_code_only_def)
  have kind: "rule_kind (hd (tl ?rules)) = TIMEOUT"
    by (simp add: classification_rules_def)
  have pre3: "\<not> list_ex (rule_matches (code status_503_code) (lowered_message status_503_code))
         (take 3 ?rules)"
    by (simp add: classification_rules_def rule_matches_def lowered_examples)
       (simp add: status_503_code_def)
  have hit3: "rule_matches (code status_503_code) (lowered_message status_503_code)
         (?rules ! 3)"
    by (simp add: classification_rules_def rule_matches_def status_503_code_def
        scenario_engine_503)
  have kind3: "rule_kind (?rules ! 3) = SERVER_ERROR"
    by (simp add: classification_rules_def)
  have none: "\<not> list_ex (rule_matches (code unmatched_error) (lowered_message unmatched_error))
         ?rules"
    by (simp add: classification_rules_def rule_matches_def lowered_examples code_ge_500_def)
       (simp add: unmatched_error_def)
  from classifyError_priority_order [of scenario_engine timeout_code_only]
    rules_split_second [of scenario_engine] pre hit kind
  have 1: "classifyError scenario_engine (ErrorObject timeout_code_only) = Some TIMEOUT"
    by metis
  from classifyError_priority_order [of scenario_engine status_503_code]
    rules_split_fourth [of scenario_engine] pre3 hit3 kind3
  have 2: "classifyError scenario_engine (ErrorObject status_503_code) = Some SERVER_ERROR"
    by metis
  from classifyError_priority_order [of scenario_engine unmatched_error] none
  have 3: "classifyError scenario_engine (ErrorObject unmatched_error) = Some UNKNOWN_ERROR"
    by blast
  from classifyError_priority_order [of scenario_engine unmatched_error]
  have 4: "classifyError scenario_engine Unclassifiable = None"
    by blast
  show ?thesis
    using rules_split_second [of scenario_engine] rules_split_fourth [of scenario_engine]
      pre hit pre3 hit3 none 1 2 3 4
    by blast
qed

text \<open>
  Against claim C4 as stated. An error whose code is \<^verbatim>\<open>TIMEOUT\<close> and whose message mentions
  the network is classified by the message, as a network error, in every engine. And a
  value that is no error object has no category at all.
\<close>

theorem classifyError_code_after_earlier_message_counterexample:
  "code timeout_code_network_message = StrCode ''TIMEOUT''
   \<and> (\<forall>js. classifyError js (ErrorObject timeout_code_network_message) = Some NETWORK_ERROR)
   \<and> (\<forall>js. classifyError js Unclassifiable = None)"
  by (simp add: classifyError_def classifyObject_def lowered_examples Let_def)
     (simp add: timeout_code_network_message_def)

section \<open>Properties of the retry delay\<close>

lemma half_jitter_policy_fields:
  "baseDelay half_jitter_policy = 1000" "maxDelay half_jitter_policy = 30000"
  "exponentialBase half_jitter_policy = 2" "jitter half_jitter_policy = 1 / 2"
  by (simp_all add: half_jitter_policy_def new_RetryConfig_def no_retry_options_def
      orDefault_def)

lemma calculateDelay_formula:
  "calculateDelay js cfg n rnd = jittered_delay js cfg n rnd"
  by (simp add: calculateDelay_def jittered_delay_def capped_delay_def Let_def)

lemma capped_delay_le: "capped_delay js cfg n \<le> maxDelay cfg"
  by (simp add: capped_delay_def)

lemma rounded_jitter_le:
  assumes fl: "rounding fl"
    and "0 \<le> j" "0 \<le> r" "r < 1" "0 \<le> M" "d \<le> (M::real)"
  shows "fl (d + fl (fl (d * j) * r)) \<le> fl (M + fl (M * j))"
proof -
  have mono: "\<And>x y. x \<le> y \<Longrightarrow> fl x \<le> fl y" and idem: "\<And>x. fl (fl x) = fl x"
    and zero: "fl 0 = 0"
    using fl by (simp_all add: rounding_def)
  have Mj: "0 \<le> fl (M * j)"
    using mono [of 0 "M * j"] assms(2,5) by (simp add: zero)
  have "fl (fl (d * j) * r) \<le> fl (M * j)"
  proof (cases "0 \<le> d")
    case True
    then have "0 \<le> fl (d * j)"
      using mono [of 0 "d * j"] assms(2) by (simp add: zero)
    then have "fl (d * j) * r \<le> fl (d * j) * 1"
      using assms(4) by (intro mult_left_mono) simp_all
    then have "fl (fl (d * j) * r) \<le> fl (fl (d * j))"
      using mono by simp
    also have "\<dots> = fl (d * j)" by (rule idem)
    also have "\<dots> \<le> fl (M * j)"
      using assms(2,6) by (intro mono mult_right_mono)
    finally show ?thesis .
  next
    case False
    then have "d * j \<le> 0"
      using assms(2) by (simp add: mult_le_0_iff)
    then have "fl (d * j) \<le> 0"
      using mono [of "d * j" 0] by (simp add: zero)
    then have "fl (d * j) * r \<le> 0"
      using assms(3) by (simp add: mult_le_0_iff)
    then have "fl (fl (d * j) * r) \<le> 0"
      using mono [of "fl (d * j) * r" 0] by (simp add: zero)
    with Mj show ?thesis by simp
  qed
  with assms(6) have "d + fl (fl (d * j) * r) \<le> M + fl (M * j)"
    by simp
  then show ?thesis by (rule mono)
qed

text \<open>
  Claim C3, as the code has it. For every attempt number and every draw the delay is the
  formula of the spec as the engine evaluates it: the floor of the capped delay plus the
  capped delay times the jitter fraction times the draw, each product and the sum
  rounded to a double. With a rounding that is monotone, leaves doubles alone and leaves
  zero alone, a jitter fraction and a maximum that are not negative and a draw in
  \<open>[0, 1)\<close>, the delay never exceeds the ceiling: the floor of \<^verbatim>\<open>maxDelay\<close> plus
  \<^verbatim>\<open>maxDelay\<close> times the jitter fraction, as the engine evaluates it.
\<close>

theorem calculateDelay_bound:
  assumes "rounding (roundDouble js)"
    and "0 \<le> jitter cfg" "0 \<le> rnd" "rnd < 1" "0 \<le> maxDelay cfg"
  shows "calculateDelay js cfg n rnd = jittered_delay js cfg n rnd
         \<and> calculateDelay js cfg n rnd \<le> delay_ceiling js cfg"
proof -
  have f: "calculateDelay js cfg n rnd = jittered_delay js cfg n rnd"
    by (rule calculateDelay_formula)
  have "roundDouble js (capped_delay js cfg n
          + roundDouble js (roundDouble js (capped_delay js cfg n * jitter cfg) * rnd))
      \<le> roundDouble js (maxDelay cfg + roundDouble js (maxDelay cfg * jitter cfg))"
    using assms capped_delay_le by (rule rounded_jitter_le)
  then have "jittered_delay js cfg n rnd \<le> delay_ceiling js cfg"
    unfolding jittered_delay_def delay_ceiling_def by (rule floor_mono)
  with f show ?thesis by simp
qed

lemma scenario_rounding: "rounding (roundDouble scenario_engine)"
  by (simp add: rounding_def scenario_engine_def)

lemma half_jitter_sixth: "calculateDelay scenario_engine half_jitter_policy 6 (1 / 2) = 37500"
  by (simp add: calculateDelay_def half_jitter_policy_fields scenario_engine_def Let_def
      power_int_def)

lemma half_jitter_ceiling: "delay_ceiling scenario_engine half_jitter_policy = 45000"
  by (simp add: delay_ceiling_def half_jitter_policy_fields scenario_engine_def)

theorem calculateDelay_bound_witness:
  "rounding (roundDouble scenario_engine)
   \<and> 0 \<le> jitter half_jitter_policy \<and> (0::real) \<le> 1 / 2 \<and> (1 / 2 :: real) < 1
   \<and> 0 \<le> maxDelay half_jitter_policy
   \<and> calculateDelay scenario_engine half_jitter_policy 6 (1 / 2)
       = jittered_delay scenario_engine half_jitter_policy 6 (1 / 2)
   \<and> calculateDelay scenario_engine half_jitter_policy 6 (1 / 2) = 37500
   \<and> delay_ceiling scenario_engine half_jitter_policy = 45000
   \<and> calculateDelay scenario_engine half_jitter_policy 6 (1 / 2)
       \<le> delay_ceiling scenario_engine half_jitter_policy"
  using calculateDelay_bound [of scenario_engine half_jitter_policy "1 / 2" 6]
    scenario_rounding half_jitter_sixth half_jitter_ceiling
  by (simp add: half_jitter_policy_fields)

text \<open>
  Against claim C3 as stated: with a maximum of 30000, base 1000, factor 2 and a jitter
  fraction of one half, the sixth attempt and a draw of one half give a delay of 37500.
  The numbers met on the way are 32, 32000, 30000, 15000, 7500 and 37500: no operation
  rounds.
\<close>

theorem calculateDelay_exceeds_maxDelay_counterexample:
  "maxDelay half_jitter_policy = 30000
   \<and> calculateDelay scenario_engine half_jitter_policy 6 (1 / 2) = 37500"
  by (simp add: half_jitter_sixth half_jitter_policy_fields)

section \<open>Properties of the gas price estimate\<close>

text \<open>
  Claim C8. When the bounds are ordered and the provider answers with a quote, the
  estimate returns a price within the bounds, in every engine: the multiplied quote
  itself when that lies within them, the minimum when it is below, the maximum when it
  is above.
\<close>

theorem estimateOptimalGasPrice_within_bounds:
  assumes "minGasPrice net \<le> maxGasPrice net"
  shows "\<exists>p. fst (estimateOptimalGasPrice js net now (Inr (Some quote)) go) = Inr p
     \<and> minGasPrice net \<le> p \<and> p \<le> maxGasPrice net
     \<and> (multiplied_quote js net quote < minGasPrice net \<longrightarrow> p = minGasPrice net)
     \<and> (maxGasPrice net < multiplied_quote js net quote \<longrightarrow> p = maxGasPrice net)
     \<and> (minGasPrice net \<le> multiplied_quote js net quote
          \<and> multiplied_quote js net quote \<le> maxGasPrice net \<longrightarrow>
        p = multiplied_quote js net quote)"
  using assms
  by (auto simp: estimateOptimalGasPrice_def multiplied_quote_def Let_def)

lemma bsc_quotes:
  "multiplied_quote scenario_engine bsc_config 1000000000 = 1250000000"
  "multiplied_quote scenario_engine bsc_config 5000000000 = 6250000000"
  "multiplied_quote scenario_engine bsc_config 50000000000 = 62500000000"
  by (simp_all add: multiplied_quote_def bsc_config_def bigint_div_def scenario_engine_def)

theorem estimateOptimalGasPrice_within_bounds_witness:
  "minGasPrice bsc_config \<le> maxGasPrice bsc_config
   \<and> multiplied_quote scenario_engine bsc_config 1000000000 < minGasPrice bsc_config
   \<and> fst (estimateOptimalGasPrice scenario_engine bsc_config 0 (Inr (Some 1000000000))
            new_GasOptimizer)
       = Inr (minGasPrice bsc_config)
   \<and> maxGasPrice bsc_config < multiplied_quote scenario_engine bsc_config 50000000000
   \<and> fst (estimateOptimalGasPrice scenario_engine bsc_config 0 (Inr (Some 50000000000))
            new_GasOptimizer)
       = Inr (maxGasPrice bsc_config)
   \<and> minGasPrice bsc_config \<le> multiplied_quote scenario_engine bsc_config 5000000000
   \<and> multiplied_quote scenario_engine bsc_config 5000000000 \<le> maxGasPrice bsc_config
   \<and> fst (estimateOptimalGasPrice scenario_engine bsc_config 0 (Inr (Some 5000000000))
            new_GasOptimizer)
       = Inr 6250000000"
proof -
  have b: "minGasPrice bsc_config \<le> maxGasPrice bsc_config"
    by (simp add: bsc_config_def)
  have lo: "multiplied_quote scenario_engine bsc_config 1000000000 < minGasPrice bsc_config"
    by (simp add: bsc_quotes) (simp add: bsc_config_def)
  have hi: "maxGasPrice bsc_config < multiplied_quote scenario_engine bsc_config 50000000000"
    by (simp add: bsc_quotes) (simp add: bsc_config_def)
  have mid: "minGasPrice bsc_config \<le> multiplied_quote scenario_engine bsc_config 5000000000"
    "multiplied_quote scenario_engine bsc_config 5000000000 \<le> maxGasPrice bsc_config"
    by (simp_all add: bsc_quotes) (simp_all add: bsc_config_def)
  from estimateOptimalGasPrice_within_bounds
    [OF b, of scenario_engine 0 1000000000 new_GasOptimizer] lo
  have 1: "fst (estimateOptimalGasPrice scenario_engine bsc_config 0 (Inr (Some 1000000000))
                  new_GasOptimizer)
       = Inr (minGasPrice bsc_config)" by auto
  from estimateOptimalGasPrice_within_bounds
    [OF b, of scenario_engine 0 50000000000 new_GasOptimizer] hi
  have 2: "fst (estimateOptimalGasPrice scenario_engine bsc_config 0 (Inr (Some 50000000000))
                  new_GasOptimizer)
       = Inr (maxGasPrice bsc_config)" by auto
  from estimateOptimalGasPrice_within_bounds
    [OF b, of scenario_engine 0 5000000000 new_GasOptimizer] mid
  have 3: "fst (estimateOptimalGasPrice scenario_engine bsc_config 0 (Inr (Some 5000000000))
                  new_GasOptimizer)
       = Inr 6250000000" by (auto simp: bsc_quotes)
  show ?thesis using b lo hi mid 1 2 3 by simp
qed

section \<open>Properties of the transaction tracker\<close>

text \<open>
  Claim C9, as the code has it. \<open>startMonitoring\<close> does not look for an existing record:
  it stores a fresh pending record under the id, with the new data and start time,
  whatever was there, and adds one to the total; the other pending records, the
  completed and failed maps and the other metrics stay as they are.
\<close>

theorem startMonitoring_overwrites:
  "pendingTransactions (startMonitoring now txHash data tm) txHash
     = Some \<lparr>txData = data, startTime = now, status = ''pending''\<rparr>
   \<and> (\<forall>other. other \<noteq> txHash \<longrightarrow>
         pendingTransactions (startMonitoring now txHash data tm) other
           = pendingTransactions tm other)
   \<and> metrics (startMonitoring now txHash data tm)
       = (metrics tm)\<lparr>totalTransactions := totalTransactions (metrics tm) + 1\<rparr>
   \<and> completedTransactions (startMonitoring now txHash data tm) = completedTransactions tm
   \<and> failedTransactions_map (startMonitoring now txHash data tm) = failedTransactions_map tm"
  by (simp add: startMonitoring_def)

theorem startMonitoring_overwrites_witness:
  "pendingTransactions one_pending ''0xabc''
     = Some \<lparr>txData = ''first'', startTime = 100, status = ''pending''\<rparr>
   \<and> pendingTransactions (startMonitoring 200 ''0xabc'' ''second'' one_pending) ''0xabc''
     = Some \<lparr>txData = ''second'', startTime = 200, status = ''pending''\<rparr>
   \<and> ''0xdef'' \<noteq> ''0xabc''
   \<and> pendingTransactions (startMonitoring 200 ''0xabc'' ''second'' one_pending) ''0xdef''
     = pendingTransactions one_pending ''0xdef''
   \<and> totalTransactions (metrics (startMonitoring 200 ''0xabc'' ''second'' one_pending))
     = totalTransactions (metrics one_pending) + 1"
  using startMonitoring_overwrites [of 200 "''0xabc''" "''second''" one_pending]
  by (simp add: one_pending_def startMonitoring_def)

text \<open>
  Against claim C9 as stated: a second start for the pending id \<^verbatim>\<open>0xabc\<close> replaces its
  record and raises the total from 1 to 2.
\<close>

theorem startMonitoring_duplicate_counterexample:
  "pendingTransactions one_pending ''0xabc''
     = Some \<lparr>txData = ''first'', startTime = 100, status = ''pending''\<rparr>
   \<and> totalTransactions (metrics one_pending) = 1
   \<and> pendingTransactions (startMonitoring 200 ''0xabc'' ''second'' one_pending) ''0xabc''
     = Some \<lparr>txData = ''second'', startTime = 200, status = ''pending''\<rparr>
   \<and> totalTransactions (metrics (startMonitoring 200 ''0xabc'' ''second'' one_pending)) = 2"
  by (simp add: one_pending_def startMonitoring_def new_TransactionMonitor_def)

section \<open>Properties of the bundle orchestration\<close>


lemma external_eq:
  "external ev answer s = (r, s1) \<longleftrightarrow>
     answer (history s) = r \<and> s1 = s\<lparr>history := history s @ [ev]\<rparr>"
  by (auto simp: external_def)







lemma relayBundle_after_simulation:
  assumes "postSimulate ch txs blk (history s1) = Inr simulation"
  shows "history (snd (relayBundle ch (token, txs, blk) s1))
           = history s1 @ [SimulateCall txs blk, SubmitCall txs blk]
       \<and> fst (relayBundle ch (token, txs, blk) s1)
           = (case postSubmit ch txs blk (history s1 @ [SimulateCall txs blk]) of
                Inl e \<Rightarrow> Inl e
              | Inr submission \<Rightarrow>
                  Inr \<lparr>tokenAddress = token, transactions = txs,
                       simulationResult = simulation, submissionResult = submission\<rparr>)"
  using assms
  by (simp add: relayBundle_def simulateBundle_def submitBundle_def andThen_def external_def
      split: sum.splits)



lemma relayBundle_simulation_throws:
  assumes "postSimulate ch txs blk (history s1) = Inl e"
  shows "relayBundle ch (token, txs, blk) s1
           = (Inl e, s1\<lparr>history := history s1 @ [SimulateCall txs blk]\<rparr>)"
  using assms
  by (simp add: relayBundle_def simulateBundle_def andThen_def external_def)

text \<open>
  The bundle function by itself. Once the bundle is assembled, a simulation call that
  throws ends the function with that error before any submission. But when the relay
  answers the simulation with an error member, the function goes on to submit the same
  transactions for the same block, and when the submission is answered it returns both
  answers as its result: it never looks at what the simulation reported.
\<close>

lemma bundleFunction_ignores_reported_failure:
  assumes "assembleBundle ch net s = (Inr (token, txs, blk), s1)"
  shows "(\<forall>e. postSimulate ch txs blk (history s1) = Inl e \<longrightarrow>
            bundleFunction ch net s
              = (Inl e, s1\<lparr>history := history s1 @ [SimulateCall txs blk]\<rparr>))
       \<and> (\<forall>reason. postSimulate ch txs blk (history s1) = Inr (RelayError reason) \<longrightarrow>
            history (snd (bundleFunction ch net s))
              = history s1 @ [SimulateCall txs blk, SubmitCall txs blk]
          \<and> (\<forall>submission.
                postSubmit ch txs blk (history s1 @ [SimulateCall txs blk]) = Inr submission \<longrightarrow>
                fst (bundleFunction ch net s)
                  = Inr \<lparr>tokenAddress = token, transactions = txs,
                         simulationResult = RelayError reason,
                         submissionResult = submission\<rparr>))"
proof (intro conjI allI impI)
  fix e
  assume "postSimulate ch txs blk (history s1) = Inl e"
  from relayBundle_simulation_throws [OF this, of token] assms
  show "bundleFunction ch net s = (Inl e, s1\<lparr>history := history s1 @ [SimulateCall txs blk]\<rparr>)"
    by (simp add: bundleFunction_def andThen_def)
next
  fix reason
  assume sim: "postSimulate ch txs blk (history s1) = Inr (RelayError reason)"
  from relayBundle_after_simulation [OF sim, of token] assms
  show "history (snd (bundleFunction ch net s))
      = history s1 @ [SimulateCall txs blk, SubmitCall txs blk]"
    by (simp add: bundleFunction_def andThen_def)
  fix submission
  assume "postSubmit ch txs blk (history s1 @ [SimulateCall txs blk]) = Inr submission"
  with relayBundle_after_simulation [OF sim, of token] assms
  show "fst (bundleFunction ch net s)
      = Inr \<lparr>tokenAddress = token, transactions = txs,
             simulationResult = RelayError reason, submissionResult = submission\<rparr>"
    by (simp add: bundleFunction_def andThen_def)
qed






lemma failing_simulation_assembly:
  "assembleBundle failing_simulation_chain bsc_config fresh_bot
     = (Inr (''0xtoken'', eight_signed, 105), after_assembly)"
  by (simp add: assembleBundle_def andThen_def getOptimalGasPrice_def getCurrentNonce_def
      getFutureBlockNumber_def createTransaction_def external_def estimateOptimalGasPrice_def
      failing_simulation_chain_def bsc_config_def fresh_bot_def new_GasOptimizer_def
      bigint_div_def Let_def assembled_history_def assembly_calls_def eight_signed_def
      after_assembly_def scenario_engine_def)



lemma failing_simulation_run:
  "bundleFunction failing_simulation_chain bsc_config fresh_bot
     = (Inr \<lparr>tokenAddress = ''0xtoken'', transactions = eight_signed,
             simulationResult = RelayError ''execution reverted'',
             submissionResult = RelayResult ''accepted''\<rparr>,
        after_assembly\<lparr>history := assembled_history
          @ [SimulateCall eight_signed 105, SubmitCall eight_signed 105]\<rparr>)"
proof -
  have "relayBundle failing_simulation_chain (''0xtoken'', eight_signed, 105) after_assembly
      = (Inr \<lparr>tokenAddress = ''0xtoken'', transactions = eight_signed,
               simulationResult = RelayError ''execution reverted'',
               submissionResult = RelayResult ''accepted''\<rparr>,
         after_assembly\<lparr>history := assembled_history
           @ [SimulateCall eight_signed 105, SubmitCall eight_signed 105]\<rparr>)"
    by (simp add: relayBundle_def simulateBundle_def submitBundle_def andThen_def external_def
        failing_simulation_chain_def after_assembly_def)
  then show ?thesis
    by (simp add: bundleFunction_def andThen_def failing_simulation_assembly)
qed








end
